theory Spec2Isabelle
  imports Main
begin

section \<open>OAuth tasks of readthedocs: data model\<close>

text \<open>
  The module \<^verbatim>\<open>readthedocs/oauth/tasks.py\<close> orchestrates collaborators that live
  elsewhere (the Django ORM, the service classes, the allauth registry, Celery).
  Database tables are lists of rows, the collaborators are fields of an environment
  record, and every call that leaves the module (\<^verbatim>\<open>sync()\<close>,
  \<^verbatim>\<open>setup_webhook()\<close>, \<^verbatim>\<open>apply_async()\<close>,
  \<^verbatim>\<open>Notification.objects.add()\<close>, \<^verbatim>\<open>project.save()\<close>) is recorded in
  the value the model returns.
\<close>

text \<open>A point in time: microseconds since 1970-01-01T00:00:00 UTC.\<close>

type_synonym datetime = int

text \<open>
  Python exceptions that can reach the \<^verbatim>\<open>except\<close> clauses of the module:
  \<^verbatim>\<open>SyncServiceError\<close> with its message, and any other subclass of
  \<^verbatim>\<open>Exception\<close>, kept by its class name.
\<close>

datatype exn = SyncServiceError string | OtherException string

record user =
  user_pk :: nat
  username :: string
  last_login :: "datetime option"

record socialaccount =
  socialaccount_pk :: nat
  socialaccount_user :: nat
  socialaccount_provider :: string

record organization =
  organization_pk :: nat
  organization_slug :: string

record ssointegration =
  sso_provider :: string
  sso_organization :: nat

record project =
  project_pk :: nat
  project_slug :: string
  has_valid_webhook :: bool

record integration =
  integration_type :: string

text \<open>
  A service instance \<^verbatim>\<open>cls(user=user, account=account)\<close>. \<open>sync\<close> is what a
  call of \<^verbatim>\<open>service.sync()\<close> does: it returns (\<open>Inr ()\<close>) or raises;
  \<open>setup_webhook\<close> is the pair \<^verbatim>\<open>(success, response)\<close> of
  \<^verbatim>\<open>account.setup_webhook(project, integration=integration)\<close>, which is
  taken to return. \<^verbatim>\<open>for_user\<close> of a service class returns a list.
\<close>

record service =
  provider_name :: string
  account :: nat
  sync :: "exn + unit"
  setup_webhook :: "project \<Rightarrow> integration option \<Rightarrow> bool \<times> string"

text \<open>A service class of the registry, with its class methods.\<close>

record service_cls =
  for_user :: "user \<Rightarrow> service list"
  is_project_service :: "project \<Rightarrow> bool"
  adapter_provider_id :: string

text \<open>An allauth provider, as \<^verbatim>\<open>allauth_registry.by_id\<close> returns it.\<close>

record provider =
  name :: string

datatype message_id =
  MESSAGE_OAUTH_WEBHOOK_INVALID
  | MESSAGE_OAUTH_WEBHOOK_NO_ACCOUNT
  | MESSAGE_OAUTH_WEBHOOK_NO_PERMISSIONS

text \<open>The arguments of one \<^verbatim>\<open>Notification.objects.add(...)\<close>.\<close>

record notification =
  notification_message_id :: message_id
  attached_to :: nat
  dismissable :: bool
  format_values :: "(string \<times> string) list"

text \<open>One \<^verbatim>\<open>sync_remote_repositories.apply_async(args=..., countdown=...)\<close>.\<close>

record task_call =
  args :: "nat list"
  countdown :: int

text \<open>
  Everything the module reads and does not define. \<open>members\<close> is
  \<^verbatim>\<open>AdminPermission.members\<close>, \<open>reverse\<close> is Django's URL reversal,
  \<open>INVALID_OR_REVOKED_ACCESS_TOKEN\<close> is the message template of
  \<^verbatim>\<open>SyncServiceError\<close> applied by \<^verbatim>\<open>.format(provider=...)\<close>, and
  \<open>set_order\<close> is the order in which the Python process iterates over a
  \<^verbatim>\<open>set\<close> of strings (it follows the strings' hashes, which are salted per
  process).
\<close>

record env =
  User_objects :: "user list"
  SocialAccount_objects :: "socialaccount list"
  Organization_objects :: "organization list"
  SSOIntegration_objects :: "ssointegration list"
  PROVIDER_ALLAUTH :: string
  registry :: "service_cls list"
  SERVICE_MAP :: "string \<rightharpoonup> service_cls"
  allauth_registry_by_id :: "string \<Rightarrow> provider"
  members :: "organization \<Rightarrow> user list"
  reverse :: "string \<Rightarrow> string list \<Rightarrow> string"
  INVALID_OR_REVOKED_ACCESS_TOKEN :: "string \<Rightarrow> string"
  set_order :: "string set \<Rightarrow> string list"

section \<open>\<^verbatim>\<open>sync_remote_repositories_organizations\<close>\<close>

text \<open>
  The inner loop \<^verbatim>\<open>for user in members\<close>: \<open>n_task\<close> is incremented, then one
  task is sent with \<^verbatim>\<open>countdown=n_task * 5\<close>. The loop returns the counter and
  the tasks sent so far.
\<close>

fun submit_members :: "user list \<Rightarrow> int \<Rightarrow> task_call list \<Rightarrow> int \<times> task_call list" where
  "submit_members [] n_task sent = (n_task, sent)"
| "submit_members (u # rest) n_task sent =
     submit_members rest (n_task + 1)
       (sent @ [\<lparr>args = [user_pk u], countdown = (n_task + 1) * 5\<rparr>])"

text \<open>The outer loop \<^verbatim>\<open>for organization in query\<close>.\<close>

fun submit_organizations ::
  "env \<Rightarrow> organization list \<Rightarrow> int \<Rightarrow> task_call list \<Rightarrow> int \<times> task_call list" where
  "submit_organizations e [] n_task sent = (n_task, sent)"
| "submit_organizations e (org # rest) n_task sent =
     (case submit_members (members e org) n_task sent of
        (n_task', sent') \<Rightarrow> submit_organizations e rest n_task' sent')"

text \<open>
  The organizations to re-sync: those whose slug is in a non-empty
  \<^verbatim>\<open>organization_slugs\<close>, else those named by an SSO integration whose provider is
  \<^verbatim>\<open>PROVIDER_ALLAUTH\<close>.
\<close>

definition organizations_query :: "env \<Rightarrow> string list option \<Rightarrow> organization list" where
  "organizations_query e organization_slugs =
     (case organization_slugs of
        Some (s # ss) \<Rightarrow>
          filter (\<lambda>org. organization_slug org \<in> set (s # ss)) (Organization_objects e)
      | _ \<Rightarrow>
          (let organization_ids =
                 map sso_organization
                   (filter (\<lambda>i. sso_provider i = PROVIDER_ALLAUTH e) (SSOIntegration_objects e))
           in filter (\<lambda>org. organization_pk org \<in> set organization_ids)
                (Organization_objects e)))"

text \<open>The task: \<open>n_task\<close> starts at \<open>-1\<close>; the result is the list of tasks sent.\<close>

definition sync_remote_repositories_organizations ::
  "env \<Rightarrow> string list option \<Rightarrow> task_call list" where
  "sync_remote_repositories_organizations e organization_slugs =
     snd (submit_organizations e (organizations_query e organization_slugs) (- 1) [])"

section \<open>\<^verbatim>\<open>sync_remote_repositories\<close>\<close>

text \<open>\<^verbatim>\<open>sep.join(xs)\<close> of Python.\<close>

fun join :: "string \<Rightarrow> string list \<Rightarrow> string" where
  "join sep [] = []"
| "join sep [x] = x"
| "join sep (x # y # ys) = x @ sep @ join sep (y # ys)"

text \<open>
  The inner loop \<^verbatim>\<open>for service in service_cls.for_user(user)\<close>. The state is
  the list of services whose \<^verbatim>\<open>sync()\<close> was called so far and the set
  \<^verbatim>\<open>failed_services\<close>. \<^verbatim>\<open>except SyncServiceError\<close> catches that
  exception only: any other one leaves the loop and the function.
\<close>

fun sync_services ::
  "service list \<Rightarrow> service list \<times> string set \<Rightarrow> service list \<times> (exn + string set)" where
  "sync_services [] (synced, failed_services) = (synced, Inr failed_services)"
| "sync_services (s # rest) (synced, failed_services) =
     (case sync s of
        Inr _ \<Rightarrow> sync_services rest (synced @ [s], failed_services)
      | Inl (SyncServiceError _) \<Rightarrow>
          sync_services rest (synced @ [s], insert (provider_name s) failed_services)
      | Inl (OtherException c) \<Rightarrow> (synced @ [s], Inl (OtherException c)))"

text \<open>The outer loop \<^verbatim>\<open>for service_cls in registry\<close>.\<close>

fun sync_registry ::
  "service_cls list \<Rightarrow> user \<Rightarrow> service list \<times> string set \<Rightarrow>
   service list \<times> (exn + string set)" where
  "sync_registry [] u (synced, failed_services) = (synced, Inr failed_services)"
| "sync_registry (cls # rest) u (synced, failed_services) =
     (case sync_services (for_user cls u) (synced, failed_services) of
        (synced', Inr failed_services') \<Rightarrow> sync_registry rest u (synced', failed_services')
      | (synced', Inl ex) \<Rightarrow> (synced', Inl ex))"

text \<open>
  The task body. The result is the list of services whose \<^verbatim>\<open>sync()\<close> was
  called, in order, and either \<open>Inr ()\<close> (the function returns) or the exception
  it raises. The permission check of the task decorator runs before the body and is
  not part of it.
\<close>

definition sync_remote_repositories :: "env \<Rightarrow> nat \<Rightarrow> service list \<times> (exn + unit)" where
  "sync_remote_repositories e user_id =
     (case find (\<lambda>u. user_pk u = user_id) (User_objects e) of
        None \<Rightarrow> ([], Inr ())
      | Some u \<Rightarrow>
          (case sync_registry (registry e) u ([], {}) of
             (synced, Inl ex) \<Rightarrow> (synced, Inl ex)
           | (synced, Inr failed_services) \<Rightarrow>
               if failed_services \<noteq> {}
               then (synced,
                     Inl (SyncServiceError
                            (INVALID_OR_REVOKED_ACCESS_TOKEN e
                               (join '', '' (set_order e failed_services)))))
               else (synced, Inr ())))"

section \<open>\<^verbatim>\<open>sync_active_users_remote_repositories\<close>\<close>

text \<open>
  \<^verbatim>\<open>datetime.isoweekday()\<close> and \<^verbatim>\<open>ExtractIsoWeekDay\<close>, both taken in UTC:
  Monday is 1 and Sunday is 7; 1970-01-01 was a Thursday.
\<close>

definition isoweekday :: "datetime \<Rightarrow> int" where
  "isoweekday t = (t div 86400000000 + 3) mod 7 + 1"

text \<open>\<^verbatim>\<open>datetime.timedelta(days=d)\<close>.\<close>

definition timedelta_days :: "int \<Rightarrow> int" where
  "timedelta_days d = d * 86400000000"

text \<open>
  The queryset
  \<^verbatim>\<open>User.objects.annotate(weekday=ExtractIsoWeekDay("last_login")).filter(last_login__gt=three_months_ago, socialaccount__isnull=False, weekday=today_weekday)\<close>.
  The condition on \<^verbatim>\<open>socialaccount\<close> spans the reverse foreign key of
  \<^verbatim>\<open>SocialAccount.user\<close>: the ORM joins the two tables, so the queryset has
  one row for each pair of a user and one of its social accounts (there is no
  \<^verbatim>\<open>distinct()\<close>). A user that never logged in has no \<^verbatim>\<open>last_login\<close>
  and fails both conditions on it.
\<close>

definition active_users_query :: "env \<Rightarrow> int \<Rightarrow> datetime \<Rightarrow> user list" where
  "active_users_query e today_weekday three_months_ago =
     concat
       (map (\<lambda>u. map (\<lambda>a. u)
                 (filter (\<lambda>a. socialaccount_user a = user_pk u) (SocialAccount_objects e)))
          (filter (\<lambda>u. case last_login u of
                         None \<Rightarrow> False
                       | Some t \<Rightarrow> three_months_ago < t \<and> isoweekday t = today_weekday)
             (User_objects e)))"

text \<open>One in-process call \<^verbatim>\<open>sync_remote_repositories(user.pk)\<close> and its outcome.\<close>

record sync_call =
  call_user :: nat
  call_synced :: "service list"
  call_result :: "exn + unit"

text \<open>
  The loop \<^verbatim>\<open>for i, user in enumerate(users)\<close>; the log lines are left out.
  \<^verbatim>\<open>except Exception\<close> catches what the call raises and the loop goes on.
\<close>

fun resync_users :: "env \<Rightarrow> user list \<Rightarrow> sync_call list \<Rightarrow> sync_call list \<times> (exn + unit)" where
  "resync_users e [] calls = (calls, Inr ())"
| "resync_users e (u # rest) calls =
     (case sync_remote_repositories e (user_pk u) of
        (synced, Inr _) \<Rightarrow>
          resync_users e rest
            (calls @ [\<lparr>call_user = user_pk u, call_synced = synced, call_result = Inr ()\<rparr>])
      | (synced, Inl ex) \<Rightarrow>
          resync_users e rest
            (calls @ [\<lparr>call_user = user_pk u, call_synced = synced, call_result = Inl ex\<rparr>]))"

text \<open>
  The task. The clock is read twice: \<open>now1\<close> gives \<^verbatim>\<open>today_weekday\<close>,
  \<open>now2\<close> gives \<^verbatim>\<open>three_months_ago\<close>.
\<close>

definition sync_active_users_remote_repositories ::
  "env \<Rightarrow> datetime \<Rightarrow> datetime \<Rightarrow> sync_call list \<times> (exn + unit)" where
  "sync_active_users_remote_repositories e now1 now2 =
     (let today_weekday = isoweekday now1;
          three_months_ago = now2 - timedelta_days 90;
          users = active_users_query e today_weekday three_months_ago
      in resync_users e users [])"

section \<open>\<^verbatim>\<open>attach_webhook\<close>\<close>

text \<open>
  What \<^verbatim>\<open>attach_webhook\<close> changes: the rows of \<^verbatim>\<open>Project\<close>, the
  notifications added, and the services whose \<^verbatim>\<open>setup_webhook\<close> was called.
\<close>

record world =
  Project_objects :: "project list"
  Notification_objects :: "notification list"
  setup_webhook_calls :: "service list"

text \<open>\<^verbatim>\<open>project.save()\<close>: the row of the project's primary key is overwritten.\<close>

definition save :: "project \<Rightarrow> world \<Rightarrow> world" where
  "save p w =
     w\<lparr>Project_objects :=
         map (\<lambda>row. if project_pk row = project_pk p then p else row) (Project_objects w)\<rparr>"

definition Notification_objects_add :: "notification \<Rightarrow> world \<Rightarrow> world" where
  "Notification_objects_add n w = w\<lparr>Notification_objects := Notification_objects w @ [n]\<rparr>"

text \<open>The notification of both branches that find no service.\<close>

definition webhook_invalid :: "env \<Rightarrow> project \<Rightarrow> notification" where
  "webhook_invalid e p =
     \<lparr>notification_message_id = MESSAGE_OAUTH_WEBHOOK_INVALID,
      attached_to = project_pk p,
      dismissable = True,
      format_values =
        [(''url_integrations'', reverse e ''projects_integrations'' [project_slug p])]\<rparr>"

definition webhook_no_permissions :: "provider \<Rightarrow> project \<Rightarrow> notification" where
  "webhook_no_permissions prov p =
     \<lparr>notification_message_id = MESSAGE_OAUTH_WEBHOOK_NO_PERMISSIONS,
      attached_to = project_pk p,
      dismissable = True,
      format_values =
        [(''provider_name'', name prov),
         (''url_docs_webhook'', ''https://docs.readthedocs.io/page/webhooks.html'')]\<rparr>"

definition webhook_no_account :: "env \<Rightarrow> provider \<Rightarrow> project \<Rightarrow> notification" where
  "webhook_no_account e prov p =
     \<lparr>notification_message_id = MESSAGE_OAUTH_WEBHOOK_NO_ACCOUNT,
      attached_to = project_pk p,
      dismissable = True,
      format_values =
        [(''provider_name'', name prov),
         (''url_connect_account'', reverse e ''projects_integrations'' [project_slug p])]\<rparr>"

text \<open>
  The loop \<^verbatim>\<open>for account in user_accounts\<close>: it returns at the first account
  whose \<^verbatim>\<open>setup_webhook\<close> succeeds, after saving the project with
  \<^verbatim>\<open>has_valid_webhook = True\<close>. The boolean says whether the loop returned.
\<close>

fun try_accounts ::
  "service list \<Rightarrow> project \<Rightarrow> integration option \<Rightarrow> world \<Rightarrow> bool \<times> world" where
  "try_accounts [] p i w = (False, w)"
| "try_accounts (acc # rest) p i w =
     (let w' = w\<lparr>setup_webhook_calls := setup_webhook_calls w @ [acc]\<rparr>
      in case setup_webhook acc p i of
           (success, _) \<Rightarrow>
             if success then (True, save (p\<lparr>has_valid_webhook := True\<rparr>) w')
             else try_accounts rest p i w')"

text \<open>The part of the task after a service class was found.\<close>

definition attach_service ::
  "env \<Rightarrow> service_cls \<Rightarrow> project \<Rightarrow> user \<Rightarrow> integration option \<Rightarrow> world \<Rightarrow>
   bool option \<times> world" where
  "attach_service e cls p u i w =
     (let prov = allauth_registry_by_id e (adapter_provider_id cls);
          user_accounts = for_user cls u
      in case try_accounts user_accounts p i w of
           (True, w') \<Rightarrow> (Some True, w')
         | (False, w') \<Rightarrow>
             if user_accounts \<noteq> []
             then (Some False, Notification_objects_add (webhook_no_permissions prov p) w')
             else (Some False, Notification_objects_add (webhook_no_account e prov p) w'))"

text \<open>
  The task. Its result is \<open>Some True\<close>, \<open>Some False\<close> or \<open>None\<close> for Python's
  \<^verbatim>\<open>True\<close>, \<^verbatim>\<open>False\<close> and \<^verbatim>\<open>None\<close>.
\<close>

definition attach_webhook ::
  "env \<Rightarrow> nat \<Rightarrow> nat \<Rightarrow> integration option \<Rightarrow> world \<Rightarrow> bool option \<times> world" where
  "attach_webhook e project_id user_id i w =
     (case (find (\<lambda>p. project_pk p = project_id) (Project_objects w),
            find (\<lambda>u. user_pk u = user_id) (User_objects e)) of
        (Some p, Some u) \<Rightarrow>
          (case i of
             Some integ \<Rightarrow>
               (case SERVICE_MAP e (integration_type integ) of
                  None \<Rightarrow> (None, Notification_objects_add (webhook_invalid e p) w)
                | Some cls \<Rightarrow> attach_service e cls p u i w)
           | None \<Rightarrow>
               (case find (\<lambda>cls. is_project_service cls p) (registry e) of
                  None \<Rightarrow> (None, Notification_objects_add (webhook_invalid e p) w)
                | Some cls \<Rightarrow> attach_service e cls p u i w))
      | _ \<Rightarrow> (Some False, w))"

section \<open>Vocabulary of the properties\<close>

text \<open>
  The loop invariant: the counter is one less than the number of tasks sent, and the
  task at position \<open>n\<close> is delayed by \<open>5 * n\<close>.
\<close>

definition staggered :: "int \<Rightarrow> task_call list \<Rightarrow> bool" where
  "staggered n_task sent \<longleftrightarrow>
     n_task = int (length sent) - 1 \<and>
     map countdown sent = map (\<lambda>n. 5 * int n) [0..<length sent]"

text \<open>
  The services of a user in the order of the two loops of
  \<^verbatim>\<open>sync_remote_repositories\<close>: registry order, then the order of
  \<^verbatim>\<open>for_user\<close>.
\<close>

definition all_services :: "env \<Rightarrow> user \<Rightarrow> service list" where
  "all_services e u = concat (map (\<lambda>cls. for_user cls u) (registry e))"

text \<open>\<^verbatim>\<open>sync()\<close> raises \<^verbatim>\<open>SyncServiceError\<close>.\<close>

definition sync_fails :: "service \<Rightarrow> bool" where
  "sync_fails s = (case sync s of Inl (SyncServiceError _) \<Rightarrow> True | _ \<Rightarrow> False)"

text \<open>\<^verbatim>\<open>sync()\<close> raises an exception that is not a \<^verbatim>\<open>SyncServiceError\<close>.\<close>

definition sync_aborts :: "service \<Rightarrow> bool" where
  "sync_aborts s = (case sync s of Inl (OtherException _) \<Rightarrow> True | _ \<Rightarrow> False)"

text \<open>The names of the providers with an account whose \<^verbatim>\<open>sync()\<close> raises \<^verbatim>\<open>SyncServiceError\<close>.\<close>

definition failed_providers :: "env \<Rightarrow> user \<Rightarrow> string set" where
  "failed_providers e u = set (map provider_name (filter sync_fails (all_services e u)))"

text \<open>Iterating over a Python set visits every element once: \<open>xs\<close> is such a visit of \<open>A\<close>.\<close>

definition enumerates :: "string list \<Rightarrow> string set \<Rightarrow> bool" where
  "enumerates xs A \<longleftrightarrow> set xs = A \<and> distinct xs"

text \<open>
  The service class \<^verbatim>\<open>attach_webhook\<close> works with: the entry of
  \<^verbatim>\<open>SERVICE_MAP\<close> for the type of the integration given, or without an
  integration the first class of the registry that claims the project.
\<close>

definition resolved_service :: "env \<Rightarrow> project \<Rightarrow> integration option \<Rightarrow> service_cls option" where
  "resolved_service e p i =
     (case i of
        Some integ \<Rightarrow> SERVICE_MAP e (integration_type integ)
      | None \<Rightarrow> find (\<lambda>cls. is_project_service cls p) (registry e))"

text \<open>\<^verbatim>\<open>setup_webhook\<close> of the account reports success.\<close>

definition succeeds :: "project \<Rightarrow> integration option \<Rightarrow> service \<Rightarrow> bool" where
  "succeeds p i acc = fst (setup_webhook acc p i)"

text \<open>
  Two states of the \<^verbatim>\<open>Project\<close> table, row by row: the same primary keys,
  and no \<^verbatim>\<open>has_valid_webhook\<close> that was true is false.
\<close>

definition never_unset :: "project list \<Rightarrow> project list \<Rightarrow> bool" where
  "never_unset rows rows' =
     list_all2 (\<lambda>row row'. project_pk row' = project_pk row \<and>
                            (has_valid_webhook row \<le> has_valid_webhook row'))
       rows rows'"

section \<open>An example installation\<close>

text \<open>
  Two registered providers and five users, on Wednesday 2026-11-04 at noon UTC. Alice
  has two GitHub accounts whose token was revoked and a working GitLab account, and
  logged in last on Wednesday 2026-10-28. Bob has one revoked account with each
  provider and logged in last on Wednesday 2026-07-08, 119 days ago. Carol has a
  working GitLab account and logged in last on Wednesday 2026-10-21. Dave has a working
  GitHub account and logged in last 120 days ago to the microsecond. Erin logged in
  last on Tuesday 2026-11-03; she has a revoked GitHub account, a GitLab account whose
  \<^verbatim>\<open>sync()\<close> raises a \<^verbatim>\<open>ConnectionError\<close>, and a second, working
  GitLab account. Alice and Bob are
  members of the organization acme, Bob is a member of globex too.
\<close>

definition gh_a :: service where
  "gh_a = \<lparr>provider_name = ''GitHub'', account = 10,
           sync = Inl (SyncServiceError ''revoked''),
           setup_webhook = (\<lambda>p i. (False, ''403''))\<rparr>"

definition gh_b :: service where
  "gh_b = \<lparr>provider_name = ''GitHub'', account = 11,
           sync = Inl (SyncServiceError ''revoked''),
           setup_webhook = (\<lambda>p i. (True, ''201''))\<rparr>"

definition gl_a :: service where
  "gl_a = \<lparr>provider_name = ''GitLab'', account = 12,
           sync = Inr (),
           setup_webhook = (\<lambda>p i. (False, ''403''))\<rparr>"

definition gh_c :: service where
  "gh_c = \<lparr>provider_name = ''GitHub'', account = 20,
           sync = Inl (SyncServiceError ''revoked''),
           setup_webhook = (\<lambda>p i. (False, ''403''))\<rparr>"

definition gl_c :: service where
  "gl_c = \<lparr>provider_name = ''GitLab'', account = 21,
           sync = Inl (SyncServiceError ''revoked''),
           setup_webhook = (\<lambda>p i. (False, ''403''))\<rparr>"

definition gl_d :: service where
  "gl_d = \<lparr>provider_name = ''GitLab'', account = 30,
           sync = Inr (),
           setup_webhook = (\<lambda>p i. (True, ''201''))\<rparr>"

definition gh_d :: service where
  "gh_d = \<lparr>provider_name = ''GitHub'', account = 40,
           sync = Inr (),
           setup_webhook = (\<lambda>p i. (True, ''201''))\<rparr>"

definition gh_e :: service where
  "gh_e = \<lparr>provider_name = ''GitHub'', account = 50,
           sync = Inl (SyncServiceError ''revoked''),
           setup_webhook = (\<lambda>p i. (False, ''403''))\<rparr>"

definition gl_e :: service where
  "gl_e = \<lparr>provider_name = ''GitLab'', account = 51,
           sync = Inl (OtherException ''ConnectionError''),
           setup_webhook = (\<lambda>p i. (False, ''403''))\<rparr>"

definition gl_f :: service where
  "gl_f = \<lparr>provider_name = ''GitLab'', account = 52,
           sync = Inr (),
           setup_webhook = (\<lambda>p i. (True, ''201''))\<rparr>"

definition GitHubService :: service_cls where
  "GitHubService =
     \<lparr>for_user = (\<lambda>u. if user_pk u = 1 then [gh_a, gh_b]
                      else if user_pk u = 2 then [gh_c]
                      else if user_pk u = 4 then [gh_d]
                      else if user_pk u = 5 then [gh_e] else []),
      is_project_service = (\<lambda>p. project_slug p = ''on-github''),
      adapter_provider_id = ''github''\<rparr>"

definition GitLabService :: service_cls where
  "GitLabService =
     \<lparr>for_user = (\<lambda>u. if user_pk u = 1 then [gl_a]
                      else if user_pk u = 2 then [gl_c]
                      else if user_pk u = 3 then [gl_d]
                      else if user_pk u = 5 then [gl_e, gl_f] else []),
      is_project_service = (\<lambda>p. project_slug p = ''on-gitlab''),
      adapter_provider_id = ''gitlab''\<rparr>"

definition alice :: user where
  "alice = \<lparr>user_pk = 1, username = ''alice'', last_login = Some 1793179800000000\<rparr>"

definition bob :: user where
  "bob = \<lparr>user_pk = 2, username = ''bob'', last_login = Some 1783504800000000\<rparr>"

definition carol :: user where
  "carol = \<lparr>user_pk = 3, username = ''carol'', last_login = Some 1792605600000000\<rparr>"

definition dave :: user where
  "dave = \<lparr>user_pk = 4, username = ''dave'', last_login = Some 1783425600000000\<rparr>"

definition erin :: user where
  "erin = \<lparr>user_pk = 5, username = ''erin'', last_login = Some 1793700000000000\<rparr>"

definition today :: datetime where
  "today = 1793793600000000"

definition acme :: organization where
  "acme = \<lparr>organization_pk = 1, organization_slug = ''acme''\<rparr>"

definition globex :: organization where
  "globex = \<lparr>organization_pk = 2, organization_slug = ''globex''\<rparr>"

definition hash_order :: "string list \<Rightarrow> string set \<Rightarrow> string list" where
  "hash_order slots A = filter (\<lambda>x. x \<in> A) slots"

definition example_env :: env where
  "example_env =
     \<lparr>User_objects = [alice, bob, carol, dave, erin],
      SocialAccount_objects =
        [\<lparr>socialaccount_pk = 10, socialaccount_user = 1, socialaccount_provider = ''github''\<rparr>,
         \<lparr>socialaccount_pk = 11, socialaccount_user = 1, socialaccount_provider = ''github''\<rparr>,
         \<lparr>socialaccount_pk = 12, socialaccount_user = 1, socialaccount_provider = ''gitlab''\<rparr>,
         \<lparr>socialaccount_pk = 20, socialaccount_user = 2, socialaccount_provider = ''github''\<rparr>,
         \<lparr>socialaccount_pk = 21, socialaccount_user = 2, socialaccount_provider = ''gitlab''\<rparr>,
         \<lparr>socialaccount_pk = 30, socialaccount_user = 3, socialaccount_provider = ''gitlab''\<rparr>,
         \<lparr>socialaccount_pk = 40, socialaccount_user = 4, socialaccount_provider = ''github''\<rparr>,
         \<lparr>socialaccount_pk = 50, socialaccount_user = 5, socialaccount_provider = ''github''\<rparr>,
         \<lparr>socialaccount_pk = 51, socialaccount_user = 5, socialaccount_provider = ''gitlab''\<rparr>,
         \<lparr>socialaccount_pk = 52, socialaccount_user = 5, socialaccount_provider = ''gitlab''\<rparr>],
      Organization_objects = [acme, globex],
      SSOIntegration_objects =
        [\<lparr>sso_provider = ''allauth'', sso_organization = 1\<rparr>,
         \<lparr>sso_provider = ''allauth'', sso_organization = 2\<rparr>],
      PROVIDER_ALLAUTH = ''allauth'',
      registry = [GitHubService, GitLabService],
      SERVICE_MAP = [''github_webhook'' \<mapsto> GitHubService, ''gitlab_webhook'' \<mapsto> GitLabService],
      allauth_registry_by_id = (\<lambda>i. \<lparr>name = (if i = ''github'' then ''GitHub'' else ''GitLab'')\<rparr>),
      members = (\<lambda>org. if organization_pk org = 1 then [alice, bob]
                       else if organization_pk org = 2 then [bob] else []),
      reverse = (\<lambda>view as. ''/dashboard/'' @ concat as @ ''/integrations/''),
      INVALID_OR_REVOKED_ACCESS_TOKEN = (\<lambda>p. ''Our access to your following accounts was revoked: '' @ p),
      set_order = hash_order [''GitHub'', ''GitLab'']\<rparr>"

text \<open>The set iteration of another process: the same elements, met in another order.\<close>

definition slot_order_rev :: "string set \<Rightarrow> string list" where
  "slot_order_rev = hash_order [''GitLab'', ''GitHub'']"

text \<open>
  Two projects: one that the GitHub service claims, with no webhook yet, and one that
  no registered service claims.
\<close>

definition docs_on_github :: project where
  "docs_on_github = \<lparr>project_pk = 7, project_slug = ''on-github'', has_valid_webhook = False\<rparr>"

definition docs_elsewhere :: project where
  "docs_elsewhere = \<lparr>project_pk = 8, project_slug = ''elsewhere'', has_valid_webhook = True\<rparr>"

definition example_world :: world where
  "example_world =
     \<lparr>Project_objects = [docs_on_github, docs_elsewhere],
      Notification_objects = [],
      setup_webhook_calls = []\<rparr>"

section \<open>Staggering of the organization re-sync\<close>

lemma staggered_start: "staggered (- 1) []"
  by (simp add: staggered_def)

lemma staggered_step:
  assumes "staggered n_task sent"
  shows "staggered (n_task + 1) (sent @ [\<lparr>args = a, countdown = (n_task + 1) * 5\<rparr>])"
  using assms by (simp add: staggered_def)

lemma submit_members_staggered:
  "staggered n_task sent \<Longrightarrow>
   staggered (fst (submit_members us n_task sent)) (snd (submit_members us n_task sent))"
proof (induction us arbitrary: n_task sent)
  case Nil
  then show ?case by simp
next
  case (Cons u us)
  from Cons.prems have "staggered (n_task + 1)
      (sent @ [\<lparr>args = [user_pk u], countdown = (n_task + 1) * 5\<rparr>])"
    by (rule staggered_step)
  then show ?case using Cons.IH by simp
qed

lemma submit_organizations_staggered:
  "staggered n_task sent \<Longrightarrow>
   staggered (fst (submit_organizations e orgs n_task sent))
     (snd (submit_organizations e orgs n_task sent))"
proof (induction orgs arbitrary: n_task sent)
  case Nil
  then show ?case by simp
next
  case (Cons org orgs)
  obtain n' sent' where m: "submit_members (members e org) n_task sent = (n', sent')"
    by (cases "submit_members (members e org) n_task sent")
  from submit_members_staggered [OF Cons.prems, of "members e org"] m
  have "staggered n' sent'" by simp
  from Cons.IH [OF this] m show ?case by simp
qed

text \<open>The tasks sent are one per member of each organization, in order.\<close>

lemma submit_members_args:
  "map args (snd (submit_members us n_task sent)) = map args sent @ map (\<lambda>u. [user_pk u]) us"
  by (induction us arbitrary: n_task sent) simp_all

lemma submit_organizations_args:
  "map args (snd (submit_organizations e orgs n_task sent)) =
   map args sent @ map (\<lambda>u. [user_pk u]) (concat (map (members e) orgs))"
proof (induction orgs arbitrary: n_task sent)
  case Nil
  then show ?case by simp
next
  case (Cons org orgs)
  obtain n' sent' where m: "submit_members (members e org) n_task sent = (n', sent')"
    by (cases "submit_members (members e org) n_task sent")
  have "map args sent' = map args sent @ map (\<lambda>u. [user_pk u]) (members e org)"
    using submit_members_args [of "members e org" n_task sent] m by simp
  then show ?case using Cons.IH [of n' sent'] m by simp
qed

text \<open>
  Claim C5. In every call of \<^verbatim>\<open>sync_remote_repositories_organizations\<close> the task
  sent at position \<open>n\<close> (counting from 0 over all organizations of the call, in the
  order of sending) has the countdown \<open>5 * n\<close>: the counter is not reset between
  organizations. The tasks are those of the members of the organizations, one
  organization after the other.
\<close>

theorem distribute_resync_countdown:
  "map countdown (sync_remote_repositories_organizations e organization_slugs) =
     map (\<lambda>n. 5 * int n)
       [0..<length (sync_remote_repositories_organizations e organization_slugs)]
   \<and> map args (sync_remote_repositories_organizations e organization_slugs) =
     map (\<lambda>u. [user_pk u])
       (concat (map (members e) (organizations_query e organization_slugs)))"
proof -
  have "staggered
      (fst (submit_organizations e (organizations_query e organization_slugs) (- 1) []))
      (sync_remote_repositories_organizations e organization_slugs)"
    unfolding sync_remote_repositories_organizations_def
    by (rule submit_organizations_staggered [OF staggered_start])
  then show ?thesis
    by (simp add: staggered_def submit_organizations_args [of e _ "- 1" "[]", simplified]
        sync_remote_repositories_organizations_def)
qed

text \<open>
  Claim C6 says that a user who is a member of two of the organizations gets one task.
  The loops send one task for every member of every organization: Bob, a member of
  acme and of globex, gets two, whether the organizations are named by their slugs or
  found by their SSO integration.
\<close>

theorem distribute_resync_twice:
  "sync_remote_repositories_organizations example_env (Some [''acme'', ''globex'']) =
     [\<lparr>args = [1], countdown = 0\<rparr>, \<lparr>args = [2], countdown = 5\<rparr>,
      \<lparr>args = [2], countdown = 10\<rparr>]
   \<and> sync_remote_repositories_organizations example_env None =
     [\<lparr>args = [1], countdown = 0\<rparr>, \<lparr>args = [2], countdown = 5\<rparr>,
      \<lparr>args = [2], countdown = 10\<rparr>]"
  by (simp add: sync_remote_repositories_organizations_def organizations_query_def
      example_env_def acme_def globex_def alice_def bob_def)

section \<open>Failure aggregation of \<^verbatim>\<open>sync_remote_repositories\<close>\<close>

lemma sync_services_complete:
  "list_all (\<lambda>s. \<not> sync_aborts s) ss \<Longrightarrow>
   sync_services ss (synced, F) =
     (synced @ ss, Inr (F \<union> set (map provider_name (filter sync_fails ss))))"
proof (induction ss arbitrary: synced F)
  case Nil
  then show ?case by simp
next
  case (Cons s ss)
  then show ?case
    by (cases "sync s"; cases "projl (sync s)")
       (auto simp: sync_aborts_def sync_fails_def split: sum.splits exn.splits)
qed

lemma sync_registry_complete:
  "list_all (\<lambda>s. \<not> sync_aborts s) (concat (map (\<lambda>cls. for_user cls u) clss)) \<Longrightarrow>
   sync_registry clss u (synced, F) =
     (synced @ concat (map (\<lambda>cls. for_user cls u) clss),
      Inr (F \<union> set (map provider_name
                 (filter sync_fails (concat (map (\<lambda>cls. for_user cls u) clss))))))"
proof (induction clss arbitrary: synced F)
  case Nil
  then show ?case by simp
next
  case (Cons cls clss)
  from Cons.prems have a: "list_all (\<lambda>s. \<not> sync_aborts s) (for_user cls u)"
    and b: "list_all (\<lambda>s. \<not> sync_aborts s) (concat (map (\<lambda>cls. for_user cls u) clss))"
    by simp_all
  show ?case
    by (simp add: sync_services_complete [OF a] Cons.IH [OF b] Un_assoc)
qed

lemma failed_providers_empty:
  "failed_providers e u = {} \<longleftrightarrow> \<not> list_ex sync_fails (all_services e u)"
  by (auto simp: failed_providers_def list_ex_iff filter_empty_conv)

text \<open>
  Claim C1, as stated, fails: \<^verbatim>\<open>except SyncServiceError\<close> catches that
  exception only. Erin's GitHub account raises \<^verbatim>\<open>SyncServiceError\<close>, then her
  first GitLab account raises a \<^verbatim>\<open>ConnectionError\<close>: that exception leaves the
  function, her second GitLab account is never tried, and no aggregate
  \<^verbatim>\<open>SyncServiceError\<close> is raised although one \<^verbatim>\<open>sync()\<close> raised the
  provider-sync error.
\<close>

theorem sync_user_aggregate_counterexample:
  "user_pk erin = 5
   \<and> erin \<in> set (User_objects example_env)
   \<and> all_services example_env erin = [gh_e, gl_e, gl_f]
   \<and> sync gh_e = Inl (SyncServiceError ''revoked'')
   \<and> sync_remote_repositories example_env 5 =
       ([gh_e, gl_e], Inl (OtherException ''ConnectionError''))"
  by (simp add: sync_remote_repositories_def all_services_def example_env_def
      alice_def bob_def carol_def dave_def erin_def GitHubService_def GitLabService_def
      gh_e_def gl_e_def gl_f_def)

text \<open>
  Claim C1, amended. A call for a user id that is not in the database returns at once,
  with no \<^verbatim>\<open>sync()\<close> called. For a user that exists, when every
  \<^verbatim>\<open>sync()\<close> returns or raises \<^verbatim>\<open>SyncServiceError\<close>:
  \<^verbatim>\<open>sync()\<close> is called on every account of every registered provider, in
  order, whatever fails; the call then raises one \<^verbatim>\<open>SyncServiceError\<close> if and
  only if some \<^verbatim>\<open>sync()\<close> raised one, and returns otherwise. The message is the
  template applied to the comma-joined iteration over the set
  \<^verbatim>\<open>failed_services\<close>; that iteration holds each name once, and its names are
  exactly the provider names of the accounts whose \<^verbatim>\<open>sync()\<close> raised, so a
  provider whose accounts all succeeded is not in it.
\<close>

theorem sync_user_aggregate:
  "(find (\<lambda>u. user_pk u = user_id) (User_objects e) = None \<longrightarrow>
      sync_remote_repositories e user_id = ([], Inr ()))
   \<and> (\<forall>u. find (\<lambda>u. user_pk u = user_id) (User_objects e) = Some u
          \<and> list_all (\<lambda>s. \<not> sync_aborts s) (all_services e u)
          \<and> enumerates (set_order e (failed_providers e u)) (failed_providers e u) \<longrightarrow>
        fst (sync_remote_repositories e user_id) = all_services e u
        \<and> snd (sync_remote_repositories e user_id) =
            (if list_ex sync_fails (all_services e u)
             then Inl (SyncServiceError
                         (INVALID_OR_REVOKED_ACCESS_TOKEN e
                            (join '', '' (set_order e (failed_providers e u)))))
             else Inr ())
        \<and> distinct (set_order e (failed_providers e u))
        \<and> set (set_order e (failed_providers e u)) =
            {provider_name s |s. s \<in> set (all_services e u) \<and> sync_fails s})"
proof (intro conjI impI allI)
  assume "find (\<lambda>u. user_pk u = user_id) (User_objects e) = None"
  then show "sync_remote_repositories e user_id = ([], Inr ())"
    by (simp add: sync_remote_repositories_def)
next
  fix u
  assume h: "find (\<lambda>u. user_pk u = user_id) (User_objects e) = Some u
          \<and> list_all (\<lambda>s. \<not> sync_aborts s) (all_services e u)
          \<and> enumerates (set_order e (failed_providers e u)) (failed_providers e u)"
  then have r: "sync_registry (registry e) u ([], {}) =
      (all_services e u, Inr (failed_providers e u))"
    using sync_registry_complete [of u "registry e" "[]" "{}"]
    by (simp add: all_services_def failed_providers_def)
  show "fst (sync_remote_repositories e user_id) = all_services e u"
    using h r by (simp add: sync_remote_repositories_def)
  show "snd (sync_remote_repositories e user_id) =
            (if list_ex sync_fails (all_services e u)
             then Inl (SyncServiceError
                         (INVALID_OR_REVOKED_ACCESS_TOKEN e
                            (join '', '' (set_order e (failed_providers e u)))))
             else Inr ())"
    using h r by (simp add: sync_remote_repositories_def failed_providers_empty)
  show "distinct (set_order e (failed_providers e u))"
    using h by (simp add: enumerates_def)
  show "set (set_order e (failed_providers e u)) =
            {provider_name s |s. s \<in> set (all_services e u) \<and> sync_fails s}"
    using h by (auto simp: enumerates_def failed_providers_def)
qed

theorem sync_user_aggregate_witness:
  "sync_remote_repositories example_env 99 = ([], Inr ())
   \<and> fst (sync_remote_repositories example_env 1) = [gh_a, gh_b, gl_a]
   \<and> snd (sync_remote_repositories example_env 1) =
       Inl (SyncServiceError ''Our access to your following accounts was revoked: GitHub'')
   \<and> set_order example_env (failed_providers example_env alice) = [''GitHub'']
   \<and> fst (sync_remote_repositories example_env 2) = [gh_c, gl_c]
   \<and> snd (sync_remote_repositories example_env 2) =
       Inl (SyncServiceError
              ''Our access to your following accounts was revoked: GitHub, GitLab'')
   \<and> set_order example_env (failed_providers example_env bob) = [''GitHub'', ''GitLab'']"
proof -
  have n: "find (\<lambda>u. user_pk u = 99) (User_objects example_env) = None"
    by (simp add: example_env_def alice_def bob_def carol_def dave_def erin_def)
  have s: "find (\<lambda>u. user_pk u = 1) (User_objects example_env) = Some alice"
    by (simp add: example_env_def alice_def)
  have sv: "all_services example_env alice = [gh_a, gh_b, gl_a]"
    by (simp add: example_env_def all_services_def GitHubService_def GitLabService_def alice_def)
  have a: "list_all (\<lambda>s. \<not> sync_aborts s) (all_services example_env alice)"
    unfolding sv by (simp add: gh_a_def gh_b_def gl_a_def sync_aborts_def)
  have f: "failed_providers example_env alice = {''GitHub''}"
    unfolding failed_providers_def sv by (simp add: gh_a_def gh_b_def gl_a_def sync_fails_def)
  have o: "set_order example_env (failed_providers example_env alice) = [''GitHub'']"
    unfolding f by (simp add: example_env_def hash_order_def)
  have en: "enumerates (set_order example_env (failed_providers example_env alice))
      (failed_providers example_env alice)"
    unfolding o unfolding f by (simp add: enumerates_def)
  have ex: "list_ex sync_fails (all_services example_env alice)"
    unfolding sv by (simp add: gh_a_def sync_fails_def)
  have t: "INVALID_OR_REVOKED_ACCESS_TOKEN example_env (join '', '' [''GitHub'']) =
      ''Our access to your following accounts was revoked: GitHub''"
    by (simp add: example_env_def)
  have s': "find (\<lambda>u. user_pk u = 2) (User_objects example_env) = Some bob"
    by (simp add: example_env_def alice_def bob_def)
  have sv': "all_services example_env bob = [gh_c, gl_c]"
    by (simp add: example_env_def all_services_def GitHubService_def GitLabService_def bob_def)
  have a': "list_all (\<lambda>s. \<not> sync_aborts s) (all_services example_env bob)"
    unfolding sv' by (simp add: gh_c_def gl_c_def sync_aborts_def)
  have f': "failed_providers example_env bob = {''GitHub'', ''GitLab''}"
    unfolding failed_providers_def sv' by (simp add: gh_c_def gl_c_def sync_fails_def)
  have o': "set_order example_env (failed_providers example_env bob) =
      [''GitHub'', ''GitLab'']"
    unfolding f' by (simp add: example_env_def hash_order_def)
  have en': "enumerates (set_order example_env (failed_providers example_env bob))
      (failed_providers example_env bob)"
    unfolding o' unfolding f' by (simp add: enumerates_def)
  have ex': "list_ex sync_fails (all_services example_env bob)"
    unfolding sv' by (simp add: gh_c_def sync_fails_def)
  have t': "INVALID_OR_REVOKED_ACCESS_TOKEN example_env (join '', '' [''GitHub'', ''GitLab'']) =
      ''Our access to your following accounts was revoked: GitHub, GitLab''"
    by (simp add: example_env_def)
  from sync_user_aggregate [of 99 example_env] n
  have 1: "sync_remote_repositories example_env 99 = ([], Inr ())" by blast
  from sync_user_aggregate [of 1 example_env] s a en
  have 2: "fst (sync_remote_repositories example_env 1) = all_services example_env alice
        \<and> snd (sync_remote_repositories example_env 1) =
            (if list_ex sync_fails (all_services example_env alice)
             then Inl (SyncServiceError
                         (INVALID_OR_REVOKED_ACCESS_TOKEN example_env
                            (join '', '' (set_order example_env (failed_providers example_env alice)))))
             else Inr ())"
    by blast
  from sync_user_aggregate [of 2 example_env] s' a' en'
  have 3: "fst (sync_remote_repositories example_env 2) = all_services example_env bob
        \<and> snd (sync_remote_repositories example_env 2) =
            (if list_ex sync_fails (all_services example_env bob)
             then Inl (SyncServiceError
                         (INVALID_OR_REVOKED_ACCESS_TOKEN example_env
                            (join '', '' (set_order example_env (failed_providers example_env bob)))))
             else Inr ())"
    by blast
  have r2: "fst (sync_remote_repositories example_env 1) = [gh_a, gh_b, gl_a]
      \<and> snd (sync_remote_repositories example_env 1) =
        Inl (SyncServiceError ''Our access to your following accounts was revoked: GitHub'')"
    using 2 ex o t sv by simp
  have r3: "fst (sync_remote_repositories example_env 2) = [gh_c, gl_c]
      \<and> snd (sync_remote_repositories example_env 2) =
        Inl (SyncServiceError
               ''Our access to your following accounts was revoked: GitHub, GitLab'')"
    using 3 ex' o' t' sv' by simp
  from 1 r2 r3 o o' show ?thesis by blast
qed
section \<open>The order of the names in the aggregate message\<close>

lemma sync_services_aborts:
  "list_ex sync_aborts ss \<Longrightarrow> \<exists>synced' ex. sync_services ss (synced, F) = (synced', Inl ex)"
proof (induction ss arbitrary: synced F)
  case Nil
  then show ?case by simp
next
  case (Cons s ss)
  then show ?case
    by (cases "sync s"; cases "projl (sync s)")
       (auto simp: sync_aborts_def split: sum.splits exn.splits)
qed

lemma sync_registry_aborts:
  "list_ex sync_aborts (concat (map (\<lambda>cls. for_user cls u) clss)) \<Longrightarrow>
   \<exists>synced' ex. sync_registry clss u (synced, F) = (synced', Inl ex)"
proof (induction clss arbitrary: synced F)
  case Nil
  then show ?case by simp
next
  case (Cons cls clss)
  show ?case
  proof (cases "list_ex sync_aborts (for_user cls u)")
    case True
    from sync_services_aborts [OF this, of synced F] show ?thesis by auto
  next
    case False
    then have a: "list_all (\<lambda>s. \<not> sync_aborts s) (for_user cls u)"
      by (simp add: list_all_iff list_ex_iff)
    from False Cons.prems
    have "list_ex sync_aborts (concat (map (\<lambda>cls. for_user cls u) clss))"
      by (auto simp: list_ex_iff)
    from Cons.IH [OF this] show ?thesis
      by (simp add: sync_services_complete [OF a])
  qed
qed

text \<open>
  Claim C9, as stated, fails: the names are joined in the iteration order of a Python
  set of strings, which is not the same in every process. For bob both providers fail;
  a process that iterates the set in the other order raises the error with the names
  in the other order.
\<close>

theorem sync_user_message_order_counterexample:
  "snd (sync_remote_repositories example_env 2) =
     Inl (SyncServiceError ''Our access to your following accounts was revoked: GitHub, GitLab'')
   \<and> snd (sync_remote_repositories (example_env\<lparr>set_order := slot_order_rev\<rparr>) 2) =
     Inl (SyncServiceError ''Our access to your following accounts was revoked: GitLab, GitHub'')
   \<and> snd (sync_remote_repositories example_env 2) \<noteq>
     snd (sync_remote_repositories (example_env\<lparr>set_order := slot_order_rev\<rparr>) 2)"
  by (simp add: sync_remote_repositories_def example_env_def alice_def bob_def carol_def dave_def erin_def
      GitHubService_def GitLabService_def gh_c_def gl_c_def hash_order_def slot_order_rev_def)


text \<open>
  Claim C9, amended. Two runs over the same users, providers, accounts and outcomes,
  which differ in the set iteration order only, call \<^verbatim>\<open>sync()\<close> on the same
  accounts. When some \<^verbatim>\<open>sync()\<close> raises another exception, or none raises
  \<^verbatim>\<open>SyncServiceError\<close>, they end alike. Otherwise both raise the aggregate
  error, each with the template applied to the comma-joined iteration of its own
  process over the set of failed provider names: both iterations hold exactly the
  names of the providers with a failing account, each once, so the two lists differ at
  most in their order. The runs end alike when both iterate over the set in the same
  order.
\<close>

theorem sync_user_message_order:
  assumes "find (\<lambda>u. user_pk u = user_id) (User_objects e) = Some u"
    and "enumerates (set_order e (failed_providers e u)) (failed_providers e u)"
    and "enumerates (order' (failed_providers e u)) (failed_providers e u)"
  shows "fst (sync_remote_repositories (e\<lparr>set_order := order'\<rparr>) user_id) =
           fst (sync_remote_repositories e user_id)
         \<and> (if list_ex sync_aborts (all_services e u)
                \<or> \<not> list_ex sync_fails (all_services e u)
            then sync_remote_repositories (e\<lparr>set_order := order'\<rparr>) user_id =
                 sync_remote_repositories e user_id
            else snd (sync_remote_repositories e user_id) =
                   Inl (SyncServiceError
                          (INVALID_OR_REVOKED_ACCESS_TOKEN e
                             (join '', '' (set_order e (failed_providers e u)))))
               \<and> snd (sync_remote_repositories (e\<lparr>set_order := order'\<rparr>) user_id) =
                   Inl (SyncServiceError
                          (INVALID_OR_REVOKED_ACCESS_TOKEN e
                             (join '', '' (order' (failed_providers e u)))))
               \<and> set (set_order e (failed_providers e u)) =
                   {provider_name s |s. s \<in> set (all_services e u) \<and> sync_fails s}
               \<and> set (order' (failed_providers e u)) =
                   {provider_name s |s. s \<in> set (all_services e u) \<and> sync_fails s}
               \<and> distinct (set_order e (failed_providers e u))
               \<and> distinct (order' (failed_providers e u))
               \<and> length (order' (failed_providers e u)) =
                   length (set_order e (failed_providers e u)))
         \<and> (order' (failed_providers e u) = set_order e (failed_providers e u) \<longrightarrow>
              sync_remote_repositories (e\<lparr>set_order := order'\<rparr>) user_id =
              sync_remote_repositories e user_id)"
proof (cases "list_ex sync_aborts (all_services e u)")
  case True
  obtain synced ex where r: "sync_registry (registry e) u ([], {}) = (synced, Inl ex)"
    using sync_registry_aborts [of u "registry e" "[]" "{}"] True
    by (auto simp: all_services_def)
  have "sync_remote_repositories (e\<lparr>set_order := order'\<rparr>) user_id =
        sync_remote_repositories e user_id"
    using assms(1) r by (simp add: sync_remote_repositories_def)
  then show ?thesis using True by simp
next
  case False
  then have "list_all (\<lambda>s. \<not> sync_aborts s) (all_services e u)"
    by (simp add: list_all_iff list_ex_iff)
  then have r: "sync_registry (registry e) u ([], {}) =
      (all_services e u, Inr (failed_providers e u))"
    using sync_registry_complete [of u "registry e" "[]" "{}"]
    by (simp add: all_services_def failed_providers_def)
  let ?F = "failed_providers e u"
  have 1: "sync_remote_repositories e user_id =
      (all_services e u,
       if ?F \<noteq> {}
       then Inl (SyncServiceError (INVALID_OR_REVOKED_ACCESS_TOKEN e (join '', '' (set_order e ?F))))
       else Inr ())"
    using assms(1) r by (simp add: sync_remote_repositories_def)
  have 2: "sync_remote_repositories (e\<lparr>set_order := order'\<rparr>) user_id =
      (all_services e u,
       if ?F \<noteq> {}
       then Inl (SyncServiceError (INVALID_OR_REVOKED_ACCESS_TOKEN e (join '', '' (order' ?F))))
       else Inr ())"
    using assms(1) r by (simp add: sync_remote_repositories_def)
  have F: "?F = {provider_name s |s. s \<in> set (all_services e u) \<and> sync_fails s}"
    by (auto simp: failed_providers_def)
  have 3: "set (set_order e ?F) = ?F" "set (order' ?F) = ?F" "distinct (set_order e ?F)"
    "distinct (order' ?F)"
    using assms(2,3) by (simp_all add: enumerates_def)
  have 4: "length (order' ?F) = length (set_order e ?F)"
    using 3 by (metis distinct_card)
  show ?thesis
  proof (cases "?F = {}")
    case True
    then have "\<not> list_ex sync_fails (all_services e u)"
      by (simp add: failed_providers_empty)
    then show ?thesis using True 1 2 by simp
  next
    case nonempty: False
    then have "list_ex sync_fails (all_services e u)"
      by (simp add: failed_providers_empty)
    with False have c: "\<not> (list_ex sync_aborts (all_services e u)
        \<or> \<not> list_ex sync_fails (all_services e u))"
      by simp
    have a: "snd (sync_remote_repositories e user_id) =
        Inl (SyncServiceError
               (INVALID_OR_REVOKED_ACCESS_TOKEN e (join '', '' (set_order e ?F))))"
      and b: "snd (sync_remote_repositories (e\<lparr>set_order := order'\<rparr>) user_id) =
        Inl (SyncServiceError
               (INVALID_OR_REVOKED_ACCESS_TOKEN e (join '', '' (order' ?F))))"
      using 1 2 nonempty by simp_all
    have d: "set (set_order e ?F) =
          {provider_name s |s. s \<in> set (all_services e u) \<and> sync_fails s}"
      "set (order' ?F) =
          {provider_name s |s. s \<in> set (all_services e u) \<and> sync_fails s}"
      using 3(1,2) F by simp_all
    have "fst (sync_remote_repositories (e\<lparr>set_order := order'\<rparr>) user_id) =
        fst (sync_remote_repositories e user_id)"
      using 1 2 by simp
    moreover have "order' ?F = set_order e ?F \<longrightarrow>
        sync_remote_repositories (e\<lparr>set_order := order'\<rparr>) user_id =
        sync_remote_repositories e user_id"
      using 1 2 by simp
    ultimately show ?thesis
      unfolding if_not_P [OF c] using a b d 3(3,4) 4 by blast
  qed
qed

theorem sync_user_message_order_witness:
  "find (\<lambda>u. user_pk u = 2) (User_objects example_env) = Some bob
   \<and> enumerates (set_order example_env (failed_providers example_env bob))
       (failed_providers example_env bob)
   \<and> enumerates (slot_order_rev (failed_providers example_env bob))
       (failed_providers example_env bob)
   \<and> fst (sync_remote_repositories (example_env\<lparr>set_order := slot_order_rev\<rparr>) 2) =
       fst (sync_remote_repositories example_env 2)
   \<and> set_order example_env (failed_providers example_env bob) = [''GitHub'', ''GitLab'']
   \<and> slot_order_rev (failed_providers example_env bob) = [''GitLab'', ''GitHub'']
   \<and> snd (sync_remote_repositories example_env 2) =
       Inl (SyncServiceError
              ''Our access to your following accounts was revoked: GitHub, GitLab'')
   \<and> snd (sync_remote_repositories (example_env\<lparr>set_order := slot_order_rev\<rparr>) 2) =
       Inl (SyncServiceError
              ''Our access to your following accounts was revoked: GitLab, GitHub'')"
proof -
  have s: "find (\<lambda>u. user_pk u = 2) (User_objects example_env) = Some bob"
    by (simp add: example_env_def alice_def bob_def)
  have sv: "all_services example_env bob = [gh_c, gl_c]"
    by (simp add: example_env_def all_services_def GitHubService_def GitLabService_def bob_def)
  have f: "failed_providers example_env bob = {''GitHub'', ''GitLab''}"
    unfolding failed_providers_def sv by (simp add: gh_c_def gl_c_def sync_fails_def)
  have o: "set_order example_env (failed_providers example_env bob) = [''GitHub'', ''GitLab'']"
    unfolding f by (simp add: example_env_def hash_order_def)
  have o': "slot_order_rev (failed_providers example_env bob) = [''GitLab'', ''GitHub'']"
    unfolding f by (simp add: slot_order_rev_def hash_order_def)
  have a: "enumerates (set_order example_env (failed_providers example_env bob))
      (failed_providers example_env bob)"
    unfolding o unfolding f by (auto simp: enumerates_def)
  have b: "enumerates (slot_order_rev (failed_providers example_env bob))
      (failed_providers example_env bob)"
    unfolding o' unfolding f by (auto simp: enumerates_def)
  have c: "\<not> (list_ex sync_aborts (all_services example_env bob)
      \<or> \<not> list_ex sync_fails (all_services example_env bob))"
    unfolding sv by (simp add: gh_c_def gl_c_def sync_aborts_def sync_fails_def)
  have t: "INVALID_OR_REVOKED_ACCESS_TOKEN example_env (join '', '' [''GitHub'', ''GitLab'']) =
      ''Our access to your following accounts was revoked: GitHub, GitLab''"
    "INVALID_OR_REVOKED_ACCESS_TOKEN example_env (join '', '' [''GitLab'', ''GitHub'']) =
      ''Our access to your following accounts was revoked: GitLab, GitHub''"
    by (simp_all add: example_env_def)
  note inst = sync_user_message_order [of 2 example_env bob slot_order_rev, OF s a b]
  from inst have 1: "fst (sync_remote_repositories (example_env\<lparr>set_order := slot_order_rev\<rparr>) 2) =
       fst (sync_remote_repositories example_env 2)"
    by (rule conjunct1)
  from inst [THEN conjunct2, THEN conjunct1]
  have 2: "snd (sync_remote_repositories example_env 2) =
        Inl (SyncServiceError
               (INVALID_OR_REVOKED_ACCESS_TOKEN example_env
                  (join '', '' (set_order example_env (failed_providers example_env bob)))))
      \<and> snd (sync_remote_repositories (example_env\<lparr>set_order := slot_order_rev\<rparr>) 2) =
        Inl (SyncServiceError
               (INVALID_OR_REVOKED_ACCESS_TOKEN example_env
                  (join '', '' (slot_order_rev (failed_providers example_env bob)))))"
    unfolding if_not_P [OF c] by blast
  from 2 have 3: "snd (sync_remote_repositories example_env 2) =
       Inl (SyncServiceError
              ''Our access to your following accounts was revoked: GitHub, GitLab'')
     \<and> snd (sync_remote_repositories (example_env\<lparr>set_order := slot_order_rev\<rparr>) 2) =
       Inl (SyncServiceError
              ''Our access to your following accounts was revoked: GitLab, GitHub'')"
    unfolding o o' t .
  from s a b 1 o o' 3 show ?thesis by blast
qed
section \<open>The weekly re-sync of active users\<close>

lemma isoweekday_range: "1 \<le> isoweekday t \<and> isoweekday t \<le> 7"
  by (simp add: isoweekday_def)

lemma day_shift: "(t - timedelta_days d) div 86400000000 = t div 86400000000 - d"
proof -
  have "t - timedelta_days d = t + (- d) * 86400000000"
    by (simp add: timedelta_days_def)
  then show ?thesis
    by (simp only: div_mult_self3)
qed

lemma isoweekday_ten_days: "isoweekday (t - timedelta_days 10) \<noteq> isoweekday t"
proof -
  have "(x - 10 + 3) mod 7 + 1 \<noteq> (x + 3) mod 7 + 1" for x :: int
    by presburger
  from this [of "t div 86400000000"] show ?thesis
    by (simp only: isoweekday_def day_shift not_False_eq_True)
qed

lemma isoweekday_next_day: "isoweekday (t + timedelta_days 1) = isoweekday t mod 7 + 1"
proof -
  have "t + timedelta_days 1 = t + 1 * 86400000000"
    by (simp add: timedelta_days_def)
  then have d: "(t + timedelta_days 1) div 86400000000 = 1 + t div 86400000000"
    by (simp only: div_mult_self3)
  have "(1 + x + 3) mod 7 + 1 = ((x + 3) mod 7 + 1) mod 7 + 1" for x :: int
    by presburger
  from this [of "t div 86400000000"] show ?thesis
    by (simp only: isoweekday_def d)
qed

lemma isoweekday_same_day: "isoweekday (t - t mod timedelta_days 1) = isoweekday t"
proof -
  have "t - t mod 86400000000 = t div 86400000000 * 86400000000"
    by (rule minus_mod_eq_div_mult)
  then have "(t - t mod 86400000000) div 86400000000 = t div 86400000000"
    by simp
  then show ?thesis
    by (simp add: isoweekday_def timedelta_days_def)
qed

lemma set_active_users_query:
  "set (active_users_query e wd since) =
     {u \<in> set (User_objects e).
        (\<exists>t. last_login u = Some t \<and> since < t \<and> isoweekday t = wd)
        \<and> (\<exists>a \<in> set (SocialAccount_objects e). socialaccount_user a = user_pk u)}"
  by (auto simp: active_users_query_def split: option.splits)

lemma resync_users_all:
  "resync_users e us calls =
     (calls @ map (\<lambda>u. \<lparr>call_user = user_pk u,
                          call_synced = fst (sync_remote_repositories e (user_pk u)),
                          call_result = snd (sync_remote_repositories e (user_pk u))\<rparr>) us,
      Inr ())"
proof (induction us arbitrary: calls)
  case Nil
  then show ?case by simp
next
  case (Cons u us)
  show ?case
  proof (cases "sync_remote_repositories e (user_pk u)")
    case (Pair synced r)
    then show ?thesis using Cons.IH by (cases r) simp_all
  qed
qed

lemma example_query:
  "active_users_query example_env (isoweekday today) (today - timedelta_days 90) =
     [alice, alice, alice, carol]"
  by (simp add: active_users_query_def example_env_def alice_def bob_def carol_def dave_def erin_def
      today_def isoweekday_def timedelta_days_def)

text \<open>
  Claim C7. The users the task loops over are exactly the users whose
  \<^verbatim>\<open>last_login\<close> is later than 90 days before the (second) reading of the
  clock, who have at least one social account, and whose \<^verbatim>\<open>last_login\<close> falls
  on the ISO weekday of the (first) reading of the clock. So a selected user whose last
  login was on a Wednesday (ISO weekday 3) is selected on a Wednesday, and a user whose
  last login is 120 days old is not selected. The ISO weekday is a number from 1 to 7,
  the same all through a UTC day, one more on the next day with 1 after 7, and 4
  (Thursday) on 1970-01-01, so that Monday is 1 and Sunday is 7.
\<close>

theorem weekly_selection:
  "set (active_users_query e (isoweekday now1) (now2 - timedelta_days 90)) =
     {u \<in> set (User_objects e).
        (\<exists>t. last_login u = Some t \<and> now2 - timedelta_days 90 < t
             \<and> isoweekday t = isoweekday now1)
        \<and> (\<exists>a \<in> set (SocialAccount_objects e). socialaccount_user a = user_pk u)}
   \<and> map call_user (fst (sync_active_users_remote_repositories e now1 now2)) =
       map user_pk (active_users_query e (isoweekday now1) (now2 - timedelta_days 90))
   \<and> (\<forall>u t. u \<in> set (active_users_query e (isoweekday now1) (now2 - timedelta_days 90))
            \<and> last_login u = Some t \<and> isoweekday t = 3 \<longrightarrow> isoweekday now1 = 3)
   \<and> (\<forall>u::user. now1 \<le> now2 \<and> last_login u = Some (now1 - timedelta_days 120) \<longrightarrow>
          u \<notin> set (active_users_query e (isoweekday now1) (now2 - timedelta_days 90)))
   \<and> (\<forall>t. 1 \<le> isoweekday t \<and> isoweekday t \<le> 7)
   \<and> (\<forall>t. isoweekday (t - t mod timedelta_days 1) = isoweekday t)
   \<and> (\<forall>t. isoweekday (t + timedelta_days 1) = isoweekday t mod 7 + 1)
   \<and> isoweekday 0 = 4"
proof (intro conjI allI impI)
  show "set (active_users_query e (isoweekday now1) (now2 - timedelta_days 90)) =
     {u \<in> set (User_objects e).
        (\<exists>t. last_login u = Some t \<and> now2 - timedelta_days 90 < t
             \<and> isoweekday t = isoweekday now1)
        \<and> (\<exists>a \<in> set (SocialAccount_objects e). socialaccount_user a = user_pk u)}"
    by (rule set_active_users_query)
  show "map call_user (fst (sync_active_users_remote_repositories e now1 now2)) =
       map user_pk (active_users_query e (isoweekday now1) (now2 - timedelta_days 90))"
    by (simp add: sync_active_users_remote_repositories_def resync_users_all comp_def)
next
  fix u t
  assume "u \<in> set (active_users_query e (isoweekday now1) (now2 - timedelta_days 90))
            \<and> last_login u = Some t \<and> isoweekday t = 3"
  then show "isoweekday now1 = 3"
    by (auto simp: set_active_users_query)
next
  fix u :: user
  assume "now1 \<le> now2 \<and> last_login u = Some (now1 - timedelta_days 120)"
  then show "u \<notin> set (active_users_query e (isoweekday now1) (now2 - timedelta_days 90))"
    by (auto simp: set_active_users_query timedelta_days_def)
next
  fix t
  show "1 \<le> isoweekday t" and "isoweekday t \<le> 7"
    using isoweekday_range [of t] by simp_all
  show "isoweekday (t - t mod timedelta_days 1) = isoweekday t"
    by (rule isoweekday_same_day)
  show "isoweekday (t + timedelta_days 1) = isoweekday t mod 7 + 1"
    by (rule isoweekday_next_day)
next
  show "isoweekday 0 = 4"
    by (simp add: isoweekday_def)
qed

theorem weekly_selection_witness:
  "set (active_users_query example_env (isoweekday today) (today - timedelta_days 90)) =
     {alice, carol}
   \<and> last_login alice = Some 1793179800000000 \<and> isoweekday 1793179800000000 = 3
   \<and> isoweekday today = 3
   \<and> isoweekday (today + timedelta_days 1) = 4
   \<and> isoweekday (today - today mod timedelta_days 1) = 3
   \<and> last_login dave = Some (today - timedelta_days 120)
   \<and> dave \<notin> set (active_users_query example_env (isoweekday today)
                     (today - timedelta_days 90))
   \<and> erin \<in> set (User_objects example_env)
   \<and> list_ex (\<lambda>a. socialaccount_user a = user_pk erin) (SocialAccount_objects example_env)
   \<and> last_login erin = Some 1793700000000000
   \<and> today - timedelta_days 90 < 1793700000000000
   \<and> isoweekday 1793700000000000 = 2
   \<and> erin \<notin> set (active_users_query example_env (isoweekday today)
                     (today - timedelta_days 90))"
proof -
  have q: "set (active_users_query example_env (isoweekday today)
      (today - timedelta_days 90)) = {alice, carol}"
    by (simp add: example_query)
  have a: "last_login alice = Some 1793179800000000 \<and> isoweekday 1793179800000000 = 3"
    by (simp add: alice_def isoweekday_def)
  have d: "last_login dave = Some (today - timedelta_days 120)"
    by (simp add: dave_def today_def timedelta_days_def)
  have e: "erin \<in> set (User_objects example_env)"
    "list_ex (\<lambda>a. socialaccount_user a = user_pk erin) (SocialAccount_objects example_env)"
    "last_login erin = Some 1793700000000000"
    "today - timedelta_days 90 < 1793700000000000"
    "isoweekday 1793700000000000 = 2"
    by (simp_all add: example_env_def erin_def today_def timedelta_days_def isoweekday_def)
  note inst = weekly_selection [of example_env today today]
  from inst q a have 1: "isoweekday today = 3" by blast
  from inst d
  have 2: "dave \<notin> set (active_users_query example_env (isoweekday today)
      (today - timedelta_days 90))"
    by blast
  from inst have "isoweekday (today + timedelta_days 1) = isoweekday today mod 7 + 1"
    by blast
  with 1 have 3: "isoweekday (today + timedelta_days 1) = 4" by simp
  from inst have "isoweekday (today - today mod timedelta_days 1) = isoweekday today"
    by blast
  with 1 have 4: "isoweekday (today - today mod timedelta_days 1) = 3" by simp
  from inst have "set (active_users_query example_env (isoweekday today)
        (today - timedelta_days 90)) =
     {u \<in> set (User_objects example_env).
        (\<exists>t. last_login u = Some t \<and> today - timedelta_days 90 < t
             \<and> isoweekday t = isoweekday today)
        \<and> (\<exists>a \<in> set (SocialAccount_objects example_env). socialaccount_user a = user_pk u)}"
    by (rule conjunct1)
  then have 5: "erin \<notin> set (active_users_query example_env (isoweekday today)
      (today - timedelta_days 90))"
    using e(3,5) 1 by simp
  from q a d e 1 2 3 4 5 show ?thesis by blast
qed

text \<open>
  Claim C8. Whatever the in-process calls of \<^verbatim>\<open>sync_remote_repositories\<close>
  raise, the aggregate \<^verbatim>\<open>SyncServiceError\<close> included, the task returns without
  an error, and it has made one call for every row of the queryset, in order.
\<close>

theorem weekly_resync_isolates_failures:
  "snd (sync_active_users_remote_repositories e now1 now2) = Inr ()
   \<and> fst (sync_active_users_remote_repositories e now1 now2) =
       map (\<lambda>u. \<lparr>call_user = user_pk u,
                  call_synced = fst (sync_remote_repositories e (user_pk u)),
                  call_result = snd (sync_remote_repositories e (user_pk u))\<rparr>)
         (active_users_query e (isoweekday now1) (now2 - timedelta_days 90))"
  by (simp add: sync_active_users_remote_repositories_def resync_users_all)


theorem weekly_resync_isolates_failures_witness:
  "snd (sync_active_users_remote_repositories example_env today today) = Inr ()
   \<and> map call_user (fst (sync_active_users_remote_repositories example_env today today)) =
       [1, 1, 1, 3]
   \<and> map call_result (fst (sync_active_users_remote_repositories example_env today today)) =
       [Inl (SyncServiceError ''Our access to your following accounts was revoked: GitHub''),
        Inl (SyncServiceError ''Our access to your following accounts was revoked: GitHub''),
        Inl (SyncServiceError ''Our access to your following accounts was revoked: GitHub''),
        Inr ()]"
proof -
  have a: "snd (sync_remote_repositories example_env 1) =
      Inl (SyncServiceError ''Our access to your following accounts was revoked: GitHub'')"
    by (simp add: sync_remote_repositories_def example_env_def alice_def bob_def carol_def
        dave_def erin_def GitHubService_def GitLabService_def gh_a_def gh_b_def gl_a_def
        hash_order_def)
  have c: "snd (sync_remote_repositories example_env 3) = Inr ()"
    by (simp add: sync_remote_repositories_def example_env_def alice_def bob_def carol_def
        dave_def erin_def GitHubService_def GitLabService_def gl_d_def hash_order_def)
  from weekly_resync_isolates_failures [of example_env today today] a c
  show ?thesis
    by (simp add: example_query alice_def carol_def)
qed

text \<open>
  Claim C10 says that a user is synced once in a run. The queryset has one row for
  every social account of a selected user, and the loop makes one call for every row:
  Alice, with three social accounts, is synced three times in the run of 2026-11-04.
\<close>

theorem weekly_resync_twice:
  "map call_user (fst (sync_active_users_remote_repositories example_env today today)) =
     [1, 1, 1, 3]"
  by (simp add: sync_active_users_remote_repositories_def resync_users_all example_query
      alice_def carol_def)

section \<open>\<^verbatim>\<open>attach_webhook\<close>: accounts tried, flag and notifications\<close>

lemma find_project_pk:
  "find (\<lambda>p. project_pk p = project_id) rows = Some p \<Longrightarrow> project_pk p = project_id"
  by (auto simp: find_Some_iff)

lemma try_accounts_calls:
  "setup_webhook_calls (snd (try_accounts accs p i w)) =
     setup_webhook_calls w @ takeWhile (\<lambda>a. \<not> succeeds p i a) accs
       @ take 1 (dropWhile (\<lambda>a. \<not> succeeds p i a) accs)"
  by (induction accs arbitrary: w)
     (auto simp: succeeds_def save_def Let_def split: prod.splits)

lemma try_accounts_success:
  "list_ex (succeeds p i) accs \<Longrightarrow>
   fst (try_accounts accs p i w) = True
   \<and> Notification_objects (snd (try_accounts accs p i w)) = Notification_objects w
   \<and> Project_objects (snd (try_accounts accs p i w)) =
       map (\<lambda>row. if project_pk row = project_pk p then p\<lparr>has_valid_webhook := True\<rparr> else row)
         (Project_objects w)"
  by (induction accs arbitrary: w)
     (auto simp: succeeds_def save_def Let_def split: prod.splits)

lemma try_accounts_failure:
  "\<not> list_ex (succeeds p i) accs \<Longrightarrow>
   try_accounts accs p i w = (False, w\<lparr>setup_webhook_calls := setup_webhook_calls w @ accs\<rparr>)"
  by (induction accs arbitrary: w)
     (auto simp: succeeds_def Let_def split: prod.splits)

lemma attach_webhook_found:
  assumes "find (\<lambda>p. project_pk p = project_id) (Project_objects w) = Some p"
    and "find (\<lambda>u. user_pk u = user_id) (User_objects e) = Some u"
  shows "attach_webhook e project_id user_id i w =
     (case resolved_service e p i of
        None \<Rightarrow> (None, Notification_objects_add (webhook_invalid e p) w)
      | Some cls \<Rightarrow> attach_service e cls p u i w)"
  using assms by (simp add: attach_webhook_def resolved_service_def split: option.splits)

lemma attach_webhook_missing:
  assumes "find (\<lambda>p. project_pk p = project_id) (Project_objects w) = None
         \<or> find (\<lambda>u. user_pk u = user_id) (User_objects e) = None"
  shows "attach_webhook e project_id user_id i w = (Some False, w)"
  using assms by (auto simp: attach_webhook_def split: option.splits)

lemma attach_service_success:
  assumes "list_ex (succeeds p i) (for_user cls u)"
  shows "fst (attach_service e cls p u i w) = Some True
   \<and> Notification_objects (snd (attach_service e cls p u i w)) = Notification_objects w
   \<and> Project_objects (snd (attach_service e cls p u i w)) =
       map (\<lambda>row. if project_pk row = project_pk p then p\<lparr>has_valid_webhook := True\<rparr> else row)
         (Project_objects w)"
  using try_accounts_success [OF assms, of w]
  by (cases "try_accounts (for_user cls u) p i w")
     (simp add: attach_service_def Let_def)

lemma attach_service_failure:
  assumes "\<not> list_ex (succeeds p i) (for_user cls u)"
  shows "attach_service e cls p u i w =
     (Some False,
      Notification_objects_add
        (if for_user cls u \<noteq> []
         then webhook_no_permissions (allauth_registry_by_id e (adapter_provider_id cls)) p
         else webhook_no_account e (allauth_registry_by_id e (adapter_provider_id cls)) p)
        (w\<lparr>setup_webhook_calls := setup_webhook_calls w @ for_user cls u\<rparr>))"
  by (simp add: attach_service_def Let_def try_accounts_failure [OF assms])

lemma attach_service_calls:
  "setup_webhook_calls (snd (attach_service e cls p u i w)) =
     setup_webhook_calls w @ takeWhile (\<lambda>a. \<not> succeeds p i a) (for_user cls u)
       @ take 1 (dropWhile (\<lambda>a. \<not> succeeds p i a) (for_user cls u))"
  using try_accounts_calls [of "for_user cls u" p i w]
  by (cases "try_accounts (for_user cls u) p i w"; cases "fst (try_accounts (for_user cls u) p i w)")
     (auto simp: attach_service_def Let_def Notification_objects_add_def)

lemma never_unset_refl: "never_unset rows rows"
  by (simp add: never_unset_def list_all2_same)

lemma never_unset_save:
  "never_unset rows
     (map (\<lambda>row. if project_pk row = project_pk p then p\<lparr>has_valid_webhook := True\<rparr> else row)
        rows)"
  by (simp add: never_unset_def list_all2_map2 list_all2_same)


lemma find_saved:
  assumes "find (\<lambda>p. project_pk p = project_id) rows = Some p"
    and "project_pk p' = project_id"
  shows "find (\<lambda>p. project_pk p = project_id)
           (map (\<lambda>row. if project_pk row = project_id then p' else row) rows) = Some p'"
  using assms by (induction rows) (auto split: if_splits)

lemma attach_webhook_table:
  "Project_objects (snd (attach_webhook e project_id user_id i w)) = Project_objects w
   \<or> (\<exists>p u cls.
        find (\<lambda>p. project_pk p = project_id) (Project_objects w) = Some p
        \<and> find (\<lambda>u. user_pk u = user_id) (User_objects e) = Some u
        \<and> resolved_service e p i = Some cls
        \<and> list_ex (succeeds p i) (for_user cls u)
        \<and> Project_objects (snd (attach_webhook e project_id user_id i w)) =
            map (\<lambda>row. if project_pk row = project_pk p
                       then p\<lparr>has_valid_webhook := True\<rparr> else row)
              (Project_objects w))"
proof (cases "find (\<lambda>p. project_pk p = project_id) (Project_objects w)")
  case None
  then show ?thesis by (simp add: attach_webhook_missing)
next
  case (Some p)
  note p = this
  show ?thesis
  proof (cases "find (\<lambda>u. user_pk u = user_id) (User_objects e)")
    case None
    then show ?thesis by (simp add: attach_webhook_missing)
  next
    case (Some u)
    note u = this
    show ?thesis
    proof (cases "resolved_service e p i")
      case None
      then show ?thesis
        by (simp add: attach_webhook_found [OF p u] Notification_objects_add_def)
    next
      case (Some cls)
      show ?thesis
      proof (cases "list_ex (succeeds p i) (for_user cls u)")
        case True
        from attach_service_success [OF True, of e w] p u Some True show ?thesis
          by (simp add: attach_webhook_found [OF p u])
      next
        case False
        then show ?thesis
          by (simp add: attach_webhook_found [OF p u] Some attach_service_failure
              Notification_objects_add_def)
      qed
    qed
  qed
qed

lemma example_project:
  "find (\<lambda>p. project_pk p = 7) (Project_objects example_world) = Some docs_on_github"
  by (simp add: example_world_def docs_on_github_def docs_elsewhere_def)

lemma example_project_elsewhere:
  "find (\<lambda>p. project_pk p = 8) (Project_objects example_world) = Some docs_elsewhere"
  by (simp add: example_world_def docs_on_github_def docs_elsewhere_def)

lemma example_user_alice:
  "find (\<lambda>u. user_pk u = 1) (User_objects example_env) = Some alice"
  by (simp add: example_env_def alice_def)

lemma example_user_bob:
  "find (\<lambda>u. user_pk u = 2) (User_objects example_env) = Some bob"
  by (simp add: example_env_def alice_def bob_def)

lemma example_user_carol:
  "find (\<lambda>u. user_pk u = 3) (User_objects example_env) = Some carol"
  by (simp add: example_env_def alice_def bob_def carol_def)

lemma example_resolved:
  "resolved_service example_env docs_on_github None = Some GitHubService"
  by (simp add: resolved_service_def example_env_def GitHubService_def docs_on_github_def)

text \<open>
  Claim C2. In every call, no row of the project table loses
  \<^verbatim>\<open>has_valid_webhook\<close>, and the table changes only when the project and the
  user exist, a service class was found and \<^verbatim>\<open>setup_webhook\<close> of one of the
  user's accounts succeeds. When a service class was found, \<^verbatim>\<open>setup_webhook\<close>
  is called on the user's accounts in the order of \<^verbatim>\<open>for_user\<close>, up to and
  including the first account that succeeds. If there is one, the call returns
  \<^verbatim>\<open>True\<close>, adds no notification, and the project's row is saved with
  \<^verbatim>\<open>has_valid_webhook = True\<close>; if there is none, the call returns
  \<^verbatim>\<open>False\<close> and the table is unchanged.
\<close>

theorem attach_webhook_first_success:
  "never_unset (Project_objects w) (Project_objects (snd (attach_webhook e project_id user_id i w)))
   \<and> (Project_objects (snd (attach_webhook e project_id user_id i w)) = Project_objects w
      \<or> (\<exists>p u cls.
           find (\<lambda>p. project_pk p = project_id) (Project_objects w) = Some p
           \<and> find (\<lambda>u. user_pk u = user_id) (User_objects e) = Some u
           \<and> resolved_service e p i = Some cls
           \<and> list_ex (succeeds p i) (for_user cls u)))
   \<and> (\<forall>p u cls.
        find (\<lambda>p. project_pk p = project_id) (Project_objects w) = Some p
        \<and> find (\<lambda>u. user_pk u = user_id) (User_objects e) = Some u
        \<and> resolved_service e p i = Some cls \<longrightarrow>
          setup_webhook_calls (snd (attach_webhook e project_id user_id i w)) =
            setup_webhook_calls w @ takeWhile (\<lambda>a. \<not> succeeds p i a) (for_user cls u)
              @ take 1 (dropWhile (\<lambda>a. \<not> succeeds p i a) (for_user cls u))
          \<and> (if list_ex (succeeds p i) (for_user cls u)
             then fst (attach_webhook e project_id user_id i w) = Some True
                \<and> Notification_objects (snd (attach_webhook e project_id user_id i w)) =
                    Notification_objects w
                \<and> Project_objects (snd (attach_webhook e project_id user_id i w)) =
                    map (\<lambda>row. if project_pk row = project_id
                               then p\<lparr>has_valid_webhook := True\<rparr> else row)
                      (Project_objects w)
                \<and> find (\<lambda>p. project_pk p = project_id)
                     (Project_objects (snd (attach_webhook e project_id user_id i w))) =
                    Some (p\<lparr>has_valid_webhook := True\<rparr>)
             else fst (attach_webhook e project_id user_id i w) = Some False
                \<and> Project_objects (snd (attach_webhook e project_id user_id i w)) =
                    Project_objects w))"
proof (intro conjI allI impI)
  show "never_unset (Project_objects w)
      (Project_objects (snd (attach_webhook e project_id user_id i w)))"
    using attach_webhook_table [of e project_id user_id i w]
    by (auto simp: never_unset_refl never_unset_save)
  show "Project_objects (snd (attach_webhook e project_id user_id i w)) = Project_objects w
      \<or> (\<exists>p u cls.
           find (\<lambda>p. project_pk p = project_id) (Project_objects w) = Some p
           \<and> find (\<lambda>u. user_pk u = user_id) (User_objects e) = Some u
           \<and> resolved_service e p i = Some cls
           \<and> list_ex (succeeds p i) (for_user cls u))"
    using attach_webhook_table [of e project_id user_id i w] by blast
next
  fix p u cls
  assume h: "find (\<lambda>p. project_pk p = project_id) (Project_objects w) = Some p
        \<and> find (\<lambda>u. user_pk u = user_id) (User_objects e) = Some u
        \<and> resolved_service e p i = Some cls"
  then have p: "find (\<lambda>p. project_pk p = project_id) (Project_objects w) = Some p"
    and u: "find (\<lambda>u. user_pk u = user_id) (User_objects e) = Some u"
    and c: "resolved_service e p i = Some cls"
    by simp_all
  have a: "attach_webhook e project_id user_id i w = attach_service e cls p u i w"
    by (simp add: attach_webhook_found [OF p u] c)
  have pk: "project_pk p = project_id"
    using p by (rule find_project_pk)
  show "setup_webhook_calls (snd (attach_webhook e project_id user_id i w)) =
            setup_webhook_calls w @ takeWhile (\<lambda>a. \<not> succeeds p i a) (for_user cls u)
              @ take 1 (dropWhile (\<lambda>a. \<not> succeeds p i a) (for_user cls u))"
    unfolding a by (rule attach_service_calls)
  show "if list_ex (succeeds p i) (for_user cls u)
             then fst (attach_webhook e project_id user_id i w) = Some True
                \<and> Notification_objects (snd (attach_webhook e project_id user_id i w)) =
                    Notification_objects w
                \<and> Project_objects (snd (attach_webhook e project_id user_id i w)) =
                    map (\<lambda>row. if project_pk row = project_id
                               then p\<lparr>has_valid_webhook := True\<rparr> else row)
                      (Project_objects w)
                \<and> find (\<lambda>p. project_pk p = project_id)
                     (Project_objects (snd (attach_webhook e project_id user_id i w))) =
                    Some (p\<lparr>has_valid_webhook := True\<rparr>)
             else fst (attach_webhook e project_id user_id i w) = Some False
                \<and> Project_objects (snd (attach_webhook e project_id user_id i w)) =
                    Project_objects w"
  proof (cases "list_ex (succeeds p i) (for_user cls u)")
    case True
    from attach_service_success [OF True, of e w] pk
    have s: "fst (attach_service e cls p u i w) = Some True
       \<and> Notification_objects (snd (attach_service e cls p u i w)) = Notification_objects w
       \<and> Project_objects (snd (attach_service e cls p u i w)) =
           map (\<lambda>row. if project_pk row = project_id
                      then p\<lparr>has_valid_webhook := True\<rparr> else row)
             (Project_objects w)"
      by simp
    have "find (\<lambda>p. project_pk p = project_id)
        (map (\<lambda>row. if project_pk row = project_id
                    then p\<lparr>has_valid_webhook := True\<rparr> else row)
           (Project_objects w)) = Some (p\<lparr>has_valid_webhook := True\<rparr>)"
      using p by (rule find_saved) (simp add: pk)
    with s True show ?thesis unfolding a by simp
  next
    case False
    then show ?thesis
      unfolding a by (simp add: attach_service_failure Notification_objects_add_def)
  qed
qed

theorem attach_webhook_first_success_witness:
  "find (\<lambda>p. project_pk p = 7) (Project_objects example_world) = Some docs_on_github
   \<and> find (\<lambda>u. user_pk u = 1) (User_objects example_env) = Some alice
   \<and> resolved_service example_env docs_on_github None = Some GitHubService
   \<and> for_user GitHubService alice = [gh_a, gh_b]
   \<and> setup_webhook_calls (snd (attach_webhook example_env 7 1 None example_world)) =
       [gh_a, gh_b]
   \<and> fst (attach_webhook example_env 7 1 None example_world) = Some True
   \<and> Notification_objects (snd (attach_webhook example_env 7 1 None example_world)) = []
   \<and> find (\<lambda>p. project_pk p = 7)
        (Project_objects (snd (attach_webhook example_env 7 1 None example_world))) =
       Some (docs_on_github\<lparr>has_valid_webhook := True\<rparr>)"
proof -
  have accs: "for_user GitHubService alice = [gh_a, gh_b]"
    by (simp add: GitHubService_def alice_def)
  have a: "\<not> succeeds docs_on_github None gh_a"
    by (simp add: succeeds_def gh_a_def)
  have b: "succeeds docs_on_github None gh_b"
    by (simp add: succeeds_def gh_b_def)
  have ex: "list_ex (succeeds docs_on_github None) (for_user GitHubService alice)"
    unfolding accs using b by simp
  have calls: "setup_webhook_calls example_world = []"
    and nts: "Notification_objects example_world = []"
    by (simp_all add: example_world_def)
  from attach_webhook_first_success [of example_world example_env 7 1 None]
    example_project example_user_alice example_resolved
  have big: "setup_webhook_calls (snd (attach_webhook example_env 7 1 None example_world)) =
            setup_webhook_calls example_world
              @ takeWhile (\<lambda>a. \<not> succeeds docs_on_github None a) (for_user GitHubService alice)
              @ take 1 (dropWhile (\<lambda>a. \<not> succeeds docs_on_github None a)
                          (for_user GitHubService alice))
          \<and> (if list_ex (succeeds docs_on_github None) (for_user GitHubService alice)
             then fst (attach_webhook example_env 7 1 None example_world) = Some True
                \<and> Notification_objects (snd (attach_webhook example_env 7 1 None example_world)) =
                    Notification_objects example_world
                \<and> Project_objects (snd (attach_webhook example_env 7 1 None example_world)) =
                    map (\<lambda>row. if project_pk row = 7
                               then docs_on_github\<lparr>has_valid_webhook := True\<rparr> else row)
                      (Project_objects example_world)
                \<and> find (\<lambda>p. project_pk p = 7)
                     (Project_objects (snd (attach_webhook example_env 7 1 None example_world))) =
                    Some (docs_on_github\<lparr>has_valid_webhook := True\<rparr>)
             else fst (attach_webhook example_env 7 1 None example_world) = Some False
                \<and> Project_objects (snd (attach_webhook example_env 7 1 None example_world)) =
                    Project_objects example_world)"
    by blast
  from big
  have t: "setup_webhook_calls (snd (attach_webhook example_env 7 1 None example_world)) =
            setup_webhook_calls example_world
              @ takeWhile (\<lambda>a. \<not> succeeds docs_on_github None a) (for_user GitHubService alice)
              @ take 1 (dropWhile (\<lambda>a. \<not> succeeds docs_on_github None a)
                          (for_user GitHubService alice))"
    by (rule conjunct1)
  from big [THEN conjunct2]
  have s: "fst (attach_webhook example_env 7 1 None example_world) = Some True
      \<and> Notification_objects (snd (attach_webhook example_env 7 1 None example_world)) =
          Notification_objects example_world
      \<and> Project_objects (snd (attach_webhook example_env 7 1 None example_world)) =
          map (\<lambda>row. if project_pk row = 7
                     then docs_on_github\<lparr>has_valid_webhook := True\<rparr> else row)
            (Project_objects example_world)
      \<and> find (\<lambda>p. project_pk p = 7)
           (Project_objects (snd (attach_webhook example_env 7 1 None example_world))) =
          Some (docs_on_github\<lparr>has_valid_webhook := True\<rparr>)"
    unfolding if_P [OF ex] .
  from s have r: "fst (attach_webhook example_env 7 1 None example_world) = Some True"
      "Notification_objects (snd (attach_webhook example_env 7 1 None example_world)) =
         Notification_objects example_world"
      "find (\<lambda>p. project_pk p = 7)
         (Project_objects (snd (attach_webhook example_env 7 1 None example_world))) =
       Some (docs_on_github\<lparr>has_valid_webhook := True\<rparr>)"
    by blast+
  from t have c: "setup_webhook_calls (snd (attach_webhook example_env 7 1 None example_world)) =
      [gh_a, gh_b]"
    unfolding accs calls using a b by simp
  show ?thesis
    using example_project example_user_alice example_resolved accs c r nts by simp
qed

text \<open>
  Claim C3. When a service class was found and no \<^verbatim>\<open>setup_webhook\<close> of the
  user's accounts succeeds, every account was tried, the call returns
  \<^verbatim>\<open>False\<close>, the project table is unchanged, and one notification is added:
  \<^verbatim>\<open>MESSAGE_OAUTH_WEBHOOK_NO_PERMISSIONS\<close> when the user has an account of the
  service, \<^verbatim>\<open>MESSAGE_OAUTH_WEBHOOK_NO_ACCOUNT\<close> when the user has none, each
  with the name of the allauth provider of the service.
\<close>

theorem attach_webhook_no_success:
  assumes "find (\<lambda>p. project_pk p = project_id) (Project_objects w) = Some p"
    and "find (\<lambda>u. user_pk u = user_id) (User_objects e) = Some u"
    and "resolved_service e p i = Some cls"
    and "\<not> list_ex (succeeds p i) (for_user cls u)"
  shows "fst (attach_webhook e project_id user_id i w) = Some False
   \<and> Project_objects (snd (attach_webhook e project_id user_id i w)) = Project_objects w
   \<and> setup_webhook_calls (snd (attach_webhook e project_id user_id i w)) =
       setup_webhook_calls w @ for_user cls u
   \<and> Notification_objects (snd (attach_webhook e project_id user_id i w)) =
       Notification_objects w @
       [if for_user cls u \<noteq> []
        then \<lparr>notification_message_id = MESSAGE_OAUTH_WEBHOOK_NO_PERMISSIONS,
              attached_to = project_id,
              dismissable = True,
              format_values =
                [(''provider_name'', name (allauth_registry_by_id e (adapter_provider_id cls))),
                 (''url_docs_webhook'', ''https://docs.readthedocs.io/page/webhooks.html'')]\<rparr>
        else \<lparr>notification_message_id = MESSAGE_OAUTH_WEBHOOK_NO_ACCOUNT,
              attached_to = project_id,
              dismissable = True,
              format_values =
                [(''provider_name'', name (allauth_registry_by_id e (adapter_provider_id cls))),
                 (''url_connect_account'',
                  reverse e ''projects_integrations'' [project_slug p])]\<rparr>]"
proof -
  have pk: "project_pk p = project_id"
    using assms(1) by (rule find_project_pk)
  have "attach_webhook e project_id user_id i w = attach_service e cls p u i w"
    by (simp add: attach_webhook_found [OF assms(1,2)] assms(3))
  then show ?thesis
    by (simp add: attach_service_failure [OF assms(4)] Notification_objects_add_def
        webhook_no_permissions_def webhook_no_account_def pk)
qed

theorem attach_webhook_no_success_witness:
  "fst (attach_webhook example_env 7 2 None example_world) = Some False
   \<and> Project_objects (snd (attach_webhook example_env 7 2 None example_world)) =
       Project_objects example_world
   \<and> setup_webhook_calls (snd (attach_webhook example_env 7 2 None example_world)) = [gh_c]
   \<and> Notification_objects (snd (attach_webhook example_env 7 2 None example_world)) =
       [\<lparr>notification_message_id = MESSAGE_OAUTH_WEBHOOK_NO_PERMISSIONS,
         attached_to = 7,
         dismissable = True,
         format_values =
           [(''provider_name'', ''GitHub''),
            (''url_docs_webhook'', ''https://docs.readthedocs.io/page/webhooks.html'')]\<rparr>]
   \<and> fst (attach_webhook example_env 7 3 None example_world) = Some False
   \<and> Project_objects (snd (attach_webhook example_env 7 3 None example_world)) =
       Project_objects example_world
   \<and> setup_webhook_calls (snd (attach_webhook example_env 7 3 None example_world)) = []
   \<and> Notification_objects (snd (attach_webhook example_env 7 3 None example_world)) =
       [\<lparr>notification_message_id = MESSAGE_OAUTH_WEBHOOK_NO_ACCOUNT,
         attached_to = 7,
         dismissable = True,
         format_values =
           [(''provider_name'', ''GitHub''),
            (''url_connect_account'', ''/dashboard/on-github/integrations/'')]\<rparr>]"
proof -
  have b: "for_user GitHubService bob = [gh_c]"
    by (simp add: GitHubService_def bob_def)
  have c: "for_user GitHubService carol = []"
    by (simp add: GitHubService_def carol_def)
  have nb: "\<not> list_ex (succeeds docs_on_github None) (for_user GitHubService bob)"
    unfolding b by (simp add: succeeds_def gh_c_def)
  have nc: "\<not> list_ex (succeeds docs_on_github None) (for_user GitHubService carol)"
    unfolding c by simp
  have n: "name (allauth_registry_by_id example_env (adapter_provider_id GitHubService)) =
      ''GitHub''"
    by (simp add: example_env_def GitHubService_def)
  have r: "reverse example_env ''projects_integrations'' [project_slug docs_on_github] =
      ''/dashboard/on-github/integrations/''"
    by (simp add: example_env_def docs_on_github_def)
  have w: "setup_webhook_calls example_world = []" "Notification_objects example_world = []"
    by (simp_all add: example_world_def)
  from attach_webhook_no_success [OF example_project example_user_bob example_resolved nb]
    attach_webhook_no_success [OF example_project example_user_carol example_resolved nc]
  show ?thesis
    unfolding b c n r w by simp
qed

text \<open>
  Claim C4, as stated, fails: the task looks up the project and the user first and
  returns \<^verbatim>\<open>False\<close> when one of them is missing, before it looks at the
  provider configuration. For the user id 99, which is not in the database, an
  integration of a type without an entry in \<^verbatim>\<open>SERVICE_MAP\<close>, or no
  integration and a project that no registered class claims, gives
  \<^verbatim>\<open>False\<close> (not \<^verbatim>\<open>None\<close>) and no notification.
\<close>

theorem attach_webhook_invalid_counterexample:
  "docs_on_github \<in> set (Project_objects example_world)
   \<and> project_pk docs_on_github = 7
   \<and> SERVICE_MAP example_env (integration_type \<lparr>integration_type = ''bitbucket_webhook''\<rparr>) =
       None
   \<and> attach_webhook example_env 7 99 (Some \<lparr>integration_type = ''bitbucket_webhook''\<rparr>)
       example_world = (Some False, example_world)
   \<and> docs_elsewhere \<in> set (Project_objects example_world)
   \<and> project_pk docs_elsewhere = 8
   \<and> \<not> is_project_service GitHubService docs_elsewhere
   \<and> \<not> is_project_service GitLabService docs_elsewhere
   \<and> registry example_env = [GitHubService, GitLabService]
   \<and> attach_webhook example_env 8 99 None example_world = (Some False, example_world)"
  by (simp add: attach_webhook_def example_env_def example_world_def docs_on_github_def
      docs_elsewhere_def alice_def bob_def carol_def dave_def erin_def
      GitHubService_def GitLabService_def)

text \<open>
  Claim C4, amended. For a project and a user that exist: when an integration is given
  whose type has no entry in \<^verbatim>\<open>SERVICE_MAP\<close>, or none is given and no class of
  the registry claims the project, the call returns \<^verbatim>\<open>None\<close> (not
  \<^verbatim>\<open>False\<close>), adds the one notification
  \<^verbatim>\<open>MESSAGE_OAUTH_WEBHOOK_INVALID\<close> attached to the project, calls no
  \<^verbatim>\<open>setup_webhook\<close> and leaves the project table unchanged.
\<close>

theorem attach_webhook_invalid:
  assumes "find (\<lambda>p. project_pk p = project_id) (Project_objects w) = Some p"
    and "find (\<lambda>u. user_pk u = user_id) (User_objects e) = Some u"
    and "(\<exists>integ. i = Some integ \<and> SERVICE_MAP e (integration_type integ) = None)
         \<or> (i = None \<and> list_all (\<lambda>cls. \<not> is_project_service cls p) (registry e))"
  shows "fst (attach_webhook e project_id user_id i w) = None
   \<and> fst (attach_webhook e project_id user_id i w) \<noteq> Some False
   \<and> Project_objects (snd (attach_webhook e project_id user_id i w)) = Project_objects w
   \<and> setup_webhook_calls (snd (attach_webhook e project_id user_id i w)) =
       setup_webhook_calls w
   \<and> Notification_objects (snd (attach_webhook e project_id user_id i w)) =
       Notification_objects w @
       [\<lparr>notification_message_id = MESSAGE_OAUTH_WEBHOOK_INVALID,
         attached_to = project_id,
         dismissable = True,
         format_values =
           [(''url_integrations'', reverse e ''projects_integrations'' [project_slug p])]\<rparr>]"
proof -
  have pk: "project_pk p = project_id"
    using assms(1) by (rule find_project_pk)
  have "find (\<lambda>cls. is_project_service cls p) (registry e) = None"
    if "list_all (\<lambda>cls. \<not> is_project_service cls p) (registry e)"
    using that by (simp add: find_None_iff list_all_iff)
  with assms(3) have "resolved_service e p i = None"
    by (auto simp: resolved_service_def)
  then show ?thesis
    by (simp add: attach_webhook_found [OF assms(1,2)] Notification_objects_add_def
        webhook_invalid_def pk)
qed


theorem attach_webhook_invalid_witness:
  "fst (attach_webhook example_env 8 1 None example_world) = None
   \<and> Project_objects (snd (attach_webhook example_env 8 1 None example_world)) =
       Project_objects example_world
   \<and> setup_webhook_calls (snd (attach_webhook example_env 8 1 None example_world)) = []
   \<and> Notification_objects (snd (attach_webhook example_env 8 1 None example_world)) =
       [\<lparr>notification_message_id = MESSAGE_OAUTH_WEBHOOK_INVALID,
         attached_to = 8,
         dismissable = True,
         format_values = [(''url_integrations'', ''/dashboard/elsewhere/integrations/'')]\<rparr>]
   \<and> fst (attach_webhook example_env 7 1 (Some \<lparr>integration_type = ''bitbucket_webhook''\<rparr>)
           example_world) = None
   \<and> Notification_objects
       (snd (attach_webhook example_env 7 1 (Some \<lparr>integration_type = ''bitbucket_webhook''\<rparr>)
               example_world)) =
       [\<lparr>notification_message_id = MESSAGE_OAUTH_WEBHOOK_INVALID,
         attached_to = 7,
         dismissable = True,
         format_values = [(''url_integrations'', ''/dashboard/on-github/integrations/'')]\<rparr>]"
proof -
  have 1: "(\<exists>integ. (None :: integration option) = Some integ
             \<and> SERVICE_MAP example_env (integration_type integ) = None)
         \<or> ((None :: integration option) = None
            \<and> list_all (\<lambda>cls. \<not> is_project_service cls docs_elsewhere) (registry example_env))"
    by (simp add: example_env_def GitHubService_def GitLabService_def docs_elsewhere_def)
  have 2: "(\<exists>integ. Some \<lparr>integration_type = ''bitbucket_webhook''\<rparr> = Some integ
             \<and> SERVICE_MAP example_env (integration_type integ) = None)
         \<or> (Some \<lparr>integration_type = ''bitbucket_webhook''\<rparr> = None
            \<and> list_all (\<lambda>cls. \<not> is_project_service cls docs_on_github) (registry example_env))"
    by (simp add: example_env_def)
  have r: "reverse example_env ''projects_integrations'' [project_slug docs_on_github] =
      ''/dashboard/on-github/integrations/''"
    "reverse example_env ''projects_integrations'' [project_slug docs_elsewhere] =
      ''/dashboard/elsewhere/integrations/''"
    by (simp_all add: example_env_def docs_on_github_def docs_elsewhere_def)
  have w: "setup_webhook_calls example_world = []" "Notification_objects example_world = []"
    by (simp_all add: example_world_def)
  from attach_webhook_invalid [OF example_project_elsewhere example_user_alice 1]
    attach_webhook_invalid [OF example_project example_user_alice 2]
  show ?thesis
    unfolding r w by simp
qed


end
